theory Spec2Isabelle
  imports Complex_Main "HOL-Library.AList"
begin

section \<open>The FAST output container of \<open>FAST/output.py\<close>\<close>

text \<open>
  The class \<open>FASToutput\<close> keeps the names of its channels in the list \<open>outputs\<close>, the
  units read from the file in the list \<open>units\<close>, the units by name in the dictionary
  \<open>output_units\<close>, and the data of every channel as an attribute of the object, written
  with \<open>setattr\<close> and read with \<open>getattr\<close>. The attributes written with \<open>setattr\<close> are the
  map \<open>attrs\<close> below. Python keeps them in one namespace with the object's own fields and
  methods (\<open>fname\<close>, \<open>outputs\<close>, \<open>N\<close>, \<open>plot\<close>, ...); \<open>channel_name\<close> below says that a
  name is none of those, and for such names \<open>getattr\<close> of the model is Python's.

  The record is polymorphic in what an attribute holds: \<open>addOutput\<close> and \<open>_setAlias\<close> never
  look inside the data they store. Where arrays are only read and new arrays are built
  (parsing, statistics, derivations, export) an attribute holds the array's contents, a
  \<open>real list\<close>; where sharing between two names matters, it holds a numpy array as a view
  of a buffer in a store.

  The source is read as Python 3 runs it. Samples are numpy \<open>float64\<close> values: they are
  real numbers here, and where the outcome of a call depends on a rounded result (the
  window of \<open>running_mean\<close>) the float operation is rounded as float64 rounds it; sums and
  products that only enter the values of a derived channel are taken over the reals.
  Text written by \<open>print\<close> is not part of the model; an exception raised while the
  arguments of a \<open>print\<close> are evaluated is.
\<close>

datatype pyerr =
    AttributeError
  | KeyError
  | IndexError
  | ValueError
  | AssertionError
  | TypeError
  | UnboundLocalError
  | OverflowError

text \<open>What a Python call hands back when the model has to tell \<open>None\<close> from a boolean.\<close>

datatype pyret = PyNone | PyBool bool

record 'd FASToutput =
  verbose :: bool
  default_aliases :: bool
  outputs :: "string list"
  units :: "string list"
  output_units :: "string \<rightharpoonup> string"
  Noutputs :: nat
  Nlines :: nat
  attrs :: "string \<rightharpoonup> 'd"

text \<open>\<open>getattr(self, name)\<close>: the attribute, or \<open>AttributeError\<close>.\<close>

definition getattr :: "'d FASToutput \<Rightarrow> string \<Rightarrow> pyerr + 'd" where
  "getattr s name = (case attrs s name of None \<Rightarrow> Inl AttributeError | Some d \<Rightarrow> Inr d)"

text \<open>
  The names that \<open>getattr\<close> finds on every object of the class whatever was read or added:
  the fields assigned by the constructor and by \<open>_readASCII\<close> (lines 59-69, 89-95), the
  public methods, and the names that begin with an underscore (\<open>_setAlias\<close>, \<open>__init__\<close>,
  \<open>__class__\<close>, ...). A channel name is any other name.
\<close>

definition own_attributes :: "string list" where
  "own_attributes =
     [''fname'', ''binary'', ''verbose'', ''outputs'', ''units'', ''output_units'',
      ''Noutputs'', ''N'', ''default_aliases'', ''addOutput'', ''printStats'', ''plot'',
      ''running_mean'', ''low_pass_filtered_mean'', ''fluctuations'', ''vector_magnitude'',
      ''to_pandas'']"

definition channel_name :: "string \<Rightarrow> bool" where
  "channel_name name = (name \<notin> set own_attributes \<and> take 1 name \<noteq> ''_'')"

text \<open>\<open>__getitem__\<close> (lines 74-78): a key outside \<open>outputs\<close> is a \<open>KeyError\<close>.\<close>

definition getitem :: "'d FASToutput \<Rightarrow> string \<Rightarrow> pyerr + 'd" where
  "getitem s key = (if key \<in> set (outputs s) then getattr s key else Inl KeyError)"

text \<open>
  \<open>addOutput\<close> (lines 127-133). With a name already in \<open>outputs\<close> the source only prints a
  notice. No path of it raises.
\<close>

definition addOutput :: "'d FASToutput \<Rightarrow> string \<Rightarrow> 'd \<Rightarrow> string option \<Rightarrow> 'd FASToutput" where
  "addOutput s name data unit =
     (if name \<notin> set (outputs s)
      then (let s1 = s\<lparr>outputs := outputs s @ [name]\<rparr>;
                s2 = s1\<lparr>attrs := (attrs s1)(name \<mapsto> data)\<rparr>
            in (case unit of
                  None \<Rightarrow> s2
                | Some u \<Rightarrow> s2\<lparr>output_units := (output_units s2)(name \<mapsto> u)\<rparr>))
      else s)"

text \<open>
  \<open>_setAlias\<close> (lines 135-147): the candidates are tried in order with \<open>getattr\<close>; the first
  one that is an attribute is handed to \<open>addOutput\<close> as it is (the same object, no copy),
  and the function returns. Both ways out are a bare \<open>return\<close> or the end of the body, so
  the value returned is \<open>None\<close> either way.
\<close>

fun setAlias :: "'d FASToutput \<Rightarrow> string \<Rightarrow> string list \<Rightarrow> pyret \<times> 'd FASToutput" where
  "setAlias s name [] = (PyNone, s)"
| "setAlias s name (alias # aliases) =
     (case getattr s alias of
        Inl e \<Rightarrow> setAlias s name aliases
      | Inr data \<Rightarrow> (PyNone, addOutput s name data None))"

section \<open>Python and numpy operations the source relies on\<close>

text \<open>
  float64 arithmetic: an operation returns its exact result rounded to 53 significant
  bits, to the nearest such number and to the one with an even last bit on a tie. The
  argument is scaled so that its 53 leading bits are the integer part. (The range of the
  exponent is not part of \<open>fl\<close>: a caller for which it matters checks the result against
  \<open>2 ^ 1024\<close>; a difference of two float64 values too small for 53 bits is exact.)
  A real number that is an operand stands for the float64 nearest to it, as Python reads
  a literal and \<open>np.loadtxt\<close> the text of a sample: the operands are rounded first, which
  leaves a float64 as it is.
\<close>

definition round_even :: "real \<Rightarrow> int" where
  "round_even x =
     (let f = \<lfloor>x\<rfloor>; r = x - of_int f
      in if r < 1 / 2 then f else if 1 / 2 < r then f + 1 else if even f then f else f + 1)"

definition fl :: "real \<Rightarrow> real" where
  "fl x =
     (if x = 0 then 0
      else (let e = \<lfloor>log 2 \<bar>x\<bar>\<rfloor>; ulp = 2 powi (e - 52)
            in of_int (round_even (x / ulp)) * ulp))"

definition float_sub :: "real \<Rightarrow> real \<Rightarrow> real" where
  "float_sub a b = fl (fl a - fl b)"

definition float_div :: "real \<Rightarrow> real \<Rightarrow> real" where
  "float_div a b = fl (fl a / fl b)"

text \<open>\<open>int(x)\<close> of a float: truncation towards zero.\<close>

definition py_int :: "real \<Rightarrow> int" where
  "py_int x = (if 0 \<le> x then \<lfloor>x\<rfloor> else \<lceil>x\<rceil>)"

text \<open>\<open>xs[k]\<close> for a Python integer \<open>k\<close>: a negative index counts from the end.\<close>

definition py_index :: "'a list \<Rightarrow> int \<Rightarrow> pyerr + 'a" where
  "py_index xs k =
     (let n = int (length xs); j = (if k < 0 then n + k else k)
      in if 0 \<le> j \<and> j < n then Inr (xs ! nat j) else Inl IndexError)"

text \<open>\<open>np.ones((N,))\<close>: a negative dimension is a \<open>ValueError\<close>.\<close>

definition np_ones :: "int \<Rightarrow> pyerr + real list" where
  "np_ones n = (if n < 0 then Inl ValueError else Inr (replicate (nat n) 1))"

text \<open>
  \<open>np.convolve(a, v, mode='valid')\<close>: an empty argument is a \<open>ValueError\<close>; numpy swaps
  the arguments when \<open>v\<close> is the longer one; the result has one entry for every position
  where the shorter array lies inside the longer one.
\<close>

definition convolve_at :: "real list \<Rightarrow> real list \<Rightarrow> nat \<Rightarrow> real" where
  "convolve_at long short k =
     (\<Sum>j\<leftarrow>[0..<length short]. short ! j * long ! (k + (length short - 1) - j))"

definition np_convolve_valid :: "real list \<Rightarrow> real list \<Rightarrow> pyerr + real list" where
  "np_convolve_valid a v =
     (if a = [] \<or> v = [] then Inl ValueError
      else (let long = (if length v > length a then v else a);
                short = (if length v > length a then a else v)
            in Inr (map (convolve_at long short) [0..<length long - length short + 1])))"

text \<open>
  \<open>a - b\<close> on two one-dimensional arrays: equal lengths subtract element by element, an
  array of length one is broadcast against the other, anything else is a \<open>ValueError\<close>.
\<close>

definition np_sub :: "real list \<Rightarrow> real list \<Rightarrow> pyerr + real list" where
  "np_sub a b =
     (if length a = length b then Inr (map2 (-) a b)
      else if length b = 1 then Inr (map (\<lambda>x. x - b ! 0) a)
      else if length a = 1 then Inr (map (\<lambda>y. a ! 0 - y) b)
      else Inl ValueError)"

text \<open>
  The accumulator of \<open>vector_magnitude\<close> starts as the float \<open>0.0\<close> and is an array after
  the first \<open>+=\<close>. On a float, \<open>+=\<close> builds a new array; on an array it adds in place, so
  the right-hand side must have the accumulator's length or length one.
\<close>

datatype npval = Scalar real | Array "real list"

definition np_iadd :: "npval \<Rightarrow> real list \<Rightarrow> pyerr + npval" where
  "np_iadd acc b =
     (case acc of
        Scalar c \<Rightarrow> Inr (Array (map (\<lambda>x. c + x) b))
      | Array a \<Rightarrow>
          (if length b = length a then Inr (Array (map2 (+) a b))
           else if length b = 1 then Inr (Array (map (\<lambda>x. x + b ! 0) a))
           else Inl ValueError))"

text \<open>\<open>x**0.5\<close>, on a float or on every entry of an array.\<close>

definition np_pow_half :: "npval \<Rightarrow> npval" where
  "np_pow_half v =
     (case v of
        Scalar c \<Rightarrow> Scalar (c powr (1/2))
      | Array a \<Rightarrow> Array (map (\<lambda>x. x powr (1/2)) a))"

text \<open>
  \<open>np.min\<close>, \<open>np.max\<close>, \<open>np.mean\<close> and \<open>np.std\<close> (with its default \<open>ddof=0\<close>) on an array
  that is not empty; \<open>np.min\<close> of an empty array is a \<open>ValueError\<close>, raised by the caller
  below.
\<close>

definition np_min :: "real list \<Rightarrow> real" where
  "np_min xs = foldl min (hd xs) (tl xs)"

definition np_max :: "real list \<Rightarrow> real" where
  "np_max xs = foldl max (hd xs) (tl xs)"

definition np_mean :: "real list \<Rightarrow> real" where
  "np_mean xs = sum_list xs / real (length xs)"

definition np_std :: "real list \<Rightarrow> real" where
  "np_std xs = sqrt (np_mean (map (\<lambda>x. \<bar>x - np_mean xs\<bar>\<^sup>2) xs))"

text \<open>
  \<open>str.split()\<close> with no argument cuts at runs of whitespace and returns no empty word;
  \<open>str.strip(chars)\<close> removes the given characters from both ends.
\<close>

definition is_space :: "char \<Rightarrow> bool" where
  "is_space c = (c \<in> set [CHR '' '', CHR 0x09, CHR 0x0A, CHR 0x0B, CHR 0x0C, CHR 0x0D])"

fun split_acc :: "string \<Rightarrow> string \<Rightarrow> string list" where
  "split_acc w [] = (if w = [] then [] else [w])"
| "split_acc w (c # cs) =
     (if is_space c then (if w = [] then split_acc [] cs else w # split_acc [] cs)
      else split_acc (w @ [c]) cs)"

definition split_ws :: "string \<Rightarrow> string list" where
  "split_ws line = split_acc [] line"

definition strip_chars :: "string \<Rightarrow> string \<Rightarrow> string" where
  "strip_chars chars w =
     rev (dropWhile (\<lambda>c. c \<in> set chars) (rev (dropWhile (\<lambda>c. c \<in> set chars) w)))"

section \<open>Statistics and derived channels\<close>

text \<open>
  \<open>printStats\<close> (lines 149-162) prints one line for every pair of
  \<open>zip(self.outputs, self.units)\<close>. The model returns the values of each line before they
  are formatted: name, units, minimum, maximum, mean, standard deviation.
\<close>

record stat_row =
  row_name :: string
  row_units :: string
  row_min :: real
  row_max :: real
  row_mean :: real
  row_std :: real

definition stats_of :: "string \<Rightarrow> string \<Rightarrow> real list \<Rightarrow> stat_row" where
  "stats_of output u data =
     \<lparr>row_name = output, row_units = u, row_min = np_min data, row_max = np_max data,
      row_mean = np_mean data, row_std = np_std data\<rparr>"

fun printStats_rows :: "real list FASToutput \<Rightarrow> (string \<times> string) list \<Rightarrow> pyerr + stat_row list" where
  "printStats_rows s [] = Inr []"
| "printStats_rows s ((output, u) # rest) =
     (case getattr s output of
        Inl e \<Rightarrow> Inl e
      | Inr data \<Rightarrow>
          (if data = [] then Inl ValueError
           else (case printStats_rows s rest of
                   Inl e \<Rightarrow> Inl e
                 | Inr rows \<Rightarrow> Inr (stats_of output u data # rows))))"

definition printStats :: "real list FASToutput \<Rightarrow> pyerr + stat_row list" where
  "printStats s = printStats_rows s (zip (outputs s) (units s))"

text \<open>
  The window of \<open>running_mean\<close>, \<open>int(Tavg / (t1 - t0))\<close> of line 177, in float64
  arithmetic. Dividing by a numpy zero gives an infinity or a NaN, and so does a quotient
  beyond the range of float64; \<open>int\<close> refuses a NaN with \<open>ValueError\<close> and an infinity
  with \<open>OverflowError\<close>.
\<close>

definition window_count :: "real \<Rightarrow> real \<Rightarrow> real \<Rightarrow> pyerr + int" where
  "window_count Tavg t1 t0 =
     (let dt = float_sub t1 t0
      in if dt = 0 then Inl (if Tavg = 0 then ValueError else OverflowError)
         else (let q = float_div Tavg dt
               in if 2 ^ 1024 \<le> \<bar>q\<bar> then Inl OverflowError else Inr (py_int q)))"

text \<open>
  \<open>running_mean\<close> (lines 176-183). The sampling interval is read from the attribute \<open>t\<close>.
  The new channel is added before the \<open>print\<close> of line 182 reads \<open>self.t[N+1]\<close>, so an
  \<open>IndexError\<close> there leaves the channel in the table. The result is the outcome of the
  call together with the object as the call leaves it.
\<close>

definition running_mean ::
  "real list FASToutput \<Rightarrow> string \<Rightarrow> real \<Rightarrow> (pyerr + real list) \<times> real list FASToutput" where
  "running_mean s outputName Tavg =
     (case getattr s ''t'' of
        Inl e \<Rightarrow> (Inl e, s)
      | Inr t \<Rightarrow>
     (case py_index t 1 of
        Inl e \<Rightarrow> (Inl e, s)
      | Inr t1 \<Rightarrow>
     (case py_index t 0 of
        Inl e \<Rightarrow> (Inl e, s)
      | Inr t0 \<Rightarrow>
     (case window_count Tavg t1 t0 of
        Inl e \<Rightarrow> (Inl e, s)
      | Inr N \<Rightarrow>
     (case getattr s outputName of
        Inl e \<Rightarrow> (Inl e, s)
      | Inr data \<Rightarrow>
     (case np_ones N of
        Inl e \<Rightarrow> (Inl e, s)
      | Inr ones \<Rightarrow>
     (case np_convolve_valid data (map (\<lambda>x. x / of_int N) ones) of
        Inl e \<Rightarrow> (Inl e, s)
      | Inr mean \<Rightarrow>
     (let newname = outputName @ ''_mean'';
          s' = addOutput s newname mean None
      in
     (case getattr s' ''t'' of
        Inl e \<Rightarrow> (Inl e, s')
      | Inr t' \<Rightarrow>
     (case py_index t' (N + 1) of
        Inl e \<Rightarrow> (Inl e, s')
      | Inr tN \<Rightarrow>
     (case py_index t' 0 of
        Inl e \<Rightarrow> (Inl e, s')
      | Inr t0' \<Rightarrow> (Inr mean, s'))))))))))))"

text \<open>
  \<open>low_pass_filtered_mean\<close> (lines 186-197). Lines 190-193 design a Butterworth filter
  with scipy and run it over the data; scipy is not part of the repository, so the filter
  is the parameter \<open>scipy_lowpass\<close>, given the order, the cutoff, the sampling interval
  \<open>t[1] - t[0]\<close> as float64 subtracts and the data. The default cutoff is \<open>np.inf\<close>.
\<close>

datatype cutoff = Hz real | Inf

type_synonym lowpass = "int \<Rightarrow> cutoff \<Rightarrow> real \<Rightarrow> real list \<Rightarrow> pyerr + real list"

definition low_pass_filtered_mean ::
  "lowpass \<Rightarrow> real list FASToutput \<Rightarrow> string \<Rightarrow> cutoff \<Rightarrow> int \<Rightarrow>
     (pyerr + real list) \<times> real list FASToutput" where
  "low_pass_filtered_mean scipy_lowpass s outputName fc order =
     (case getattr s outputName of
        Inl e \<Rightarrow> (Inl e, s)
      | Inr data \<Rightarrow>
     (case getattr s ''t'' of
        Inl e \<Rightarrow> (Inl e, s)
      | Inr t \<Rightarrow>
     (case py_index t 1 of
        Inl e \<Rightarrow> (Inl e, s)
      | Inr t1 \<Rightarrow>
     (case py_index t 0 of
        Inl e \<Rightarrow> (Inl e, s)
      | Inr t0 \<Rightarrow>
     (case scipy_lowpass order fc (float_sub t1 t0) data of
        Inl e \<Rightarrow> (Inl e, s)
      | Inr filtered_data \<Rightarrow>
          (Inr filtered_data, addOutput s (outputName @ ''_mean'') filtered_data None))))))"

text \<open>
  \<open>fluctuations\<close> (lines 200-213). \<open>Navg/2\<close> in line 209 is a division of integers, which
  gives a float in Python 3, and numpy refuses a float as the bound of a slice with
  \<open>TypeError\<close>: the branch for data longer than the mean always raises. The first part of
  the body (lines 201-204) picks the name of the mean and computes it when it is missing.
\<close>

definition fluctuations_from ::
  "real list FASToutput \<Rightarrow> string \<Rightarrow> string \<Rightarrow> (pyerr + real list) \<times> real list FASToutput" where
  "fluctuations_from s outputName meanName =
     (case getattr s outputName of
        Inl e \<Rightarrow> (Inl e, s)
      | Inr data \<Rightarrow>
     (case getattr s meanName of
        Inl e \<Rightarrow> (Inl e, s)
      | Inr mean \<Rightarrow>
     (if length data > length mean then (Inl TypeError, s)
      else
     (case np_sub data mean of
        Inl e \<Rightarrow> (Inl e, s)
      | Inr fluc \<Rightarrow> (Inr fluc, addOutput s (outputName @ ''_fluc'') fluc None)))))"

definition fluctuations ::
  "lowpass \<Rightarrow> real list FASToutput \<Rightarrow> string \<Rightarrow> string option \<Rightarrow>
     (pyerr + real list) \<times> real list FASToutput" where
  "fluctuations scipy_lowpass s outputName meanName =
     (case meanName of
        Some m \<Rightarrow> fluctuations_from s outputName m
      | None \<Rightarrow>
          (let m = outputName @ ''_mean'' in
           if attrs s m \<noteq> None then fluctuations_from s outputName m
           else (case low_pass_filtered_mean scipy_lowpass s outputName Inf 2 of
                   (Inl e, s') \<Rightarrow> (Inl e, s')
                 | (Inr filtered, s') \<Rightarrow> fluctuations_from s' outputName m)))"

text \<open>
  \<open>vector_magnitude\<close> (lines 216-221). Every raise comes before \<open>addOutput\<close>, so an error
  leaves the object as it was. Where \<open>mag_sq**0.5\<close> is computed the list of components is
  not empty, so \<open>mag_sq\<close> is an array; the branch for a float is there for totality only.
\<close>

fun mag_sq_loop :: "real list FASToutput \<Rightarrow> npval \<Rightarrow> string list \<Rightarrow> pyerr + npval" where
  "mag_sq_loop s mag_sq [] = Inr mag_sq"
| "mag_sq_loop s mag_sq (component # rest) =
     (case getitem s component of
        Inl e \<Rightarrow> Inl e
      | Inr d \<Rightarrow>
          (case np_iadd mag_sq (map (\<lambda>x. x\<^sup>2) d) of
             Inl e \<Rightarrow> Inl e
           | Inr mag_sq' \<Rightarrow> mag_sq_loop s mag_sq' rest))"

definition vector_magnitude ::
  "real list FASToutput \<Rightarrow> string \<Rightarrow> string list \<Rightarrow> pyerr + real list FASToutput" where
  "vector_magnitude s outputname components =
     (case mag_sq_loop s (Scalar 0) components of
        Inl e \<Rightarrow> Inl e
      | Inr mag_sq \<Rightarrow>
     (case components of
        [] \<Rightarrow> Inl IndexError
      | c0 # _ \<Rightarrow>
     (case output_units s c0 of
        None \<Rightarrow> Inl KeyError
      | Some u \<Rightarrow>
     (case np_pow_half mag_sq of
        Array mag \<Rightarrow> Inr (addOutput s outputname mag (Some u))
      | Scalar c \<Rightarrow> Inr (addOutput s outputname [c] (Some u))))))"

section \<open>Reading a file\<close>

text \<open>
  A file is the list of its lines. \<open>readline\<close> at the end of the file returns the empty
  string. \<open>np.loadtxt\<close> is numpy's, not the repository's: it is the parameter \<open>loadtxt\<close>,
  which, given the lines and the number of lines to skip, returns the rows of numbers it
  read or raises.
\<close>

type_synonym loadtxt = "string list \<Rightarrow> nat \<Rightarrow> pyerr + real list list"

definition readline :: "string list \<Rightarrow> nat \<Rightarrow> string" where
  "readline f k = (if k < length f then f ! k else [])"

text \<open>
  \<open>_readASCII\<close> (lines 80-98). The loop of line 94 counts the lines after the units; with
  none left its variable is never bound and line 95 raises.
\<close>

definition readASCII ::
  "loadtxt \<Rightarrow> real list FASToutput \<Rightarrow> string list \<Rightarrow> nat \<Rightarrow>
     pyerr + real list list \<times> real list FASToutput" where
  "readASCII loadtxt s f Nheaderlines =
     (let s1 = s\<lparr>outputs := split_ws (readline f Nheaderlines)\<rparr>;
          s2 = s1\<lparr>units := map (strip_chars ''()'') (split_ws (readline f (Nheaderlines + 1)))\<rparr>;
          s3 = s2\<lparr>Noutputs := length (outputs s2)\<rparr>
      in if Noutputs s3 \<noteq> length (units s3) then Inl AssertionError
         else if length f \<le> Nheaderlines + 2 then Inl UnboundLocalError
         else (let s4 = s3\<lparr>Nlines := length f - (Nheaderlines + 2)\<rparr>
               in (case loadtxt f (Nheaderlines + 2) of
                     Inl e \<Rightarrow> Inl e
                   | Inr data \<Rightarrow> Inr (data, s4))))"

text \<open>
  \<open>data[:,i]\<close>. numpy squeezes what \<open>loadtxt\<close> read: fewer than two rows or fewer than two
  columns give an array of one dimension or none, where two indices are an
  \<open>IndexError\<close>, as is a column past the last one.
\<close>

definition np_column :: "real list list \<Rightarrow> nat \<Rightarrow> pyerr + real list" where
  "np_column data i =
     (if length data < 2 \<or> length (hd data) < 2 then Inl IndexError
      else if i < length (hd data) then Inr (map (\<lambda>row. row ! i) data)
      else Inl IndexError)"

text \<open>The loop of lines 111-113 over \<open>enumerate(self.outputs)\<close>.\<close>

fun set_columns ::
  "real list FASToutput \<Rightarrow> real list list \<Rightarrow> (nat \<times> string) list \<Rightarrow> pyerr + real list FASToutput" where
  "set_columns s data [] = Inr s"
| "set_columns s data ((i, output) # rest) =
     (case np_column data i of
        Inl e \<Rightarrow> Inl e
      | Inr col \<Rightarrow>
          (case py_index (units s) (int i) of
             Inl e \<Rightarrow> Inl e
           | Inr u \<Rightarrow>
               set_columns
                 (s\<lparr>attrs := (attrs s)(output \<mapsto> col),
                    output_units := (output_units s)(output \<mapsto> u)\<rparr>) data rest))"

text \<open>The default aliases of lines 117-125, in the order of the source.\<close>

definition default_alias_list :: "(string \<times> string list) list" where
  "default_alias_list =
     [(''t'', [''Time'']),
      (''P'', [''RotPwr'']),
      (''T'', [''RotThrust'', ''LSShftFxa'', ''LSShftFxs'', ''LSSGagFxa'', ''LSSGagFxs'']),
      (''rpm'', [''LSSTipVxa'']),
      (''genspd'', [''HSShftV'']),
      (''pitch1'', [''PtchPMzc1'']),
      (''pitch2'', [''PtchPMzc2'']),
      (''pitch3'', [''PtchPMzc3'']),
      (''pitch'', [''pitch1''])]"

fun set_default_aliases :: "'d FASToutput \<Rightarrow> (string \<times> string list) list \<Rightarrow> 'd FASToutput" where
  "set_default_aliases s [] = s"
| "set_default_aliases s ((name, aliases) # rest) =
     set_default_aliases (snd (setAlias s name aliases)) rest"

text \<open>\<open>_readFASToutput\<close> (lines 104-125), on the text path (the binary reader is a stub).\<close>

definition readFASToutput ::
  "loadtxt \<Rightarrow> real list FASToutput \<Rightarrow> string list \<Rightarrow> nat \<Rightarrow> pyerr + real list FASToutput" where
  "readFASToutput loadtxt s f Nheaderlines =
     (case readASCII loadtxt s f Nheaderlines of
        Inl e \<Rightarrow> Inl e
      | Inr (data, s1) \<Rightarrow>
     (case set_columns s1 data (enumerate 0 (outputs s1)) of
        Inl e \<Rightarrow> Inl e
      | Inr s2 \<Rightarrow>
     (case getattr s2 ''Time'' of
        Inl e \<Rightarrow> Inl e
      | Inr time \<Rightarrow>
          (if length time \<noteq> Nlines s2 then Inl AssertionError
           else if default_aliases s2 then Inr (set_default_aliases s2 default_alias_list)
           else Inr s2))))"

text \<open>
  The constructor (lines 57-72), with \<open>binary=False\<close>. The source starts \<open>outputs\<close> and
  \<open>units\<close> as \<open>None\<close>; both are assigned by \<open>_readASCII\<close> before anything reads them.
\<close>

definition FASToutput_init ::
  "loadtxt \<Rightarrow> string list \<Rightarrow> bool \<Rightarrow> bool \<Rightarrow> pyerr + real list FASToutput" where
  "FASToutput_init loadtxt f aliases verb =
     (let s0 = \<lparr>verbose = verb, default_aliases = aliases, outputs = [], units = [],
                output_units = Map.empty, Noutputs = 0, Nlines = 0, attrs = Map.empty\<rparr>
      in (case readFASToutput loadtxt s0 f 6 of
            Inl e \<Rightarrow> Inl e
          | Inr s \<Rightarrow>
              (if verb then (case printStats s of Inl e \<Rightarrow> Inl e | Inr rows \<Rightarrow> Inr s)
               else Inr s)))"

section \<open>Export to a table\<close>

text \<open>
  A pandas \<open>DataFrame\<close>: its index and its columns in order. A cell is \<open>None\<close> where
  pandas holds NaN. \<open>df[name] = values\<close> gives a frame without rows the length of the
  values (columns it already has are filled with NaN), refuses values of another length
  than the index with \<open>ValueError\<close>, and otherwise overwrites the column of that name in
  place or appends a new one. \<open>set_index\<close> makes a column the index and removes it from
  the columns; a missing column is a \<open>KeyError\<close>.
\<close>

datatype pd_index = RangeIndex nat | NamedIndex string "real option list"

record dataframe =
  df_index :: pd_index
  df_columns :: "(string \<times> real option list) list"

definition df_nrows :: "dataframe \<Rightarrow> nat" where
  "df_nrows df = (case df_index df of RangeIndex n \<Rightarrow> n | NamedIndex k v \<Rightarrow> length v)"

definition df_empty :: dataframe where
  "df_empty = \<lparr>df_index = RangeIndex 0, df_columns = []\<rparr>"

definition df_setitem :: "dataframe \<Rightarrow> string \<Rightarrow> real list \<Rightarrow> pyerr + dataframe" where
  "df_setitem df name vals =
     (if df_nrows df = 0 \<and> vals \<noteq> []
      then Inr \<lparr>df_index = RangeIndex (length vals),
                df_columns = AList.update name (map Some vals)
                  (map (\<lambda>(c, col). (c, replicate (length vals) None)) (df_columns df))\<rparr>
      else if length vals \<noteq> df_nrows df then Inl ValueError
      else Inr (df\<lparr>df_columns := AList.update name (map Some vals) (df_columns df)\<rparr>))"

definition df_set_index :: "dataframe \<Rightarrow> string \<Rightarrow> pyerr + dataframe" where
  "df_set_index df key =
     (case map_of (df_columns df) key of
        None \<Rightarrow> Inl KeyError
      | Some col \<Rightarrow>
          Inr \<lparr>df_index = NamedIndex key col, df_columns = AList.delete key (df_columns df)\<rparr>)"

text \<open>\<open>to_pandas\<close> (lines 224-229).\<close>

fun to_pandas_loop :: "real list FASToutput \<Rightarrow> string list \<Rightarrow> dataframe \<Rightarrow> pyerr + dataframe" where
  "to_pandas_loop s [] df = Inr df"
| "to_pandas_loop s (output # rest) df =
     (case getattr s output of
        Inl e \<Rightarrow> Inl e
      | Inr data \<Rightarrow>
          (case df_setitem df output data of
             Inl e \<Rightarrow> Inl e
           | Inr df' \<Rightarrow> to_pandas_loop s rest df'))"

definition to_pandas :: "real list FASToutput \<Rightarrow> pyerr + dataframe" where
  "to_pandas s =
     (case to_pandas_loop s (outputs s) df_empty of
        Inl e \<Rightarrow> Inl e
      | Inr df \<Rightarrow> df_set_index df ''Time'')"

section \<open>Arrays as views of buffers\<close>

text \<open>
  Where two names may hold arrays that share memory, an attribute is a numpy array of one
  dimension as numpy keeps it: a view of \<open>v_count\<close> cells of a buffer, the first at
  \<open>v_offset\<close>, each \<open>v_stride\<close> cells after the one before. The store holds the buffers.
  Two views share memory when they have a cell of one buffer in common.
  \<open>table[name]\<close> returns the view; \<open>read_channel\<close> reads the cells behind it. The caller's
  \<open>table[name][i] = x\<close> writes into the buffer in place.
\<close>

record view =
  v_buffer :: nat
  v_offset :: nat
  v_stride :: nat
  v_count :: nat

type_synonym store = "real list list"

definition cell :: "view \<Rightarrow> nat \<Rightarrow> nat" where
  "cell v k = v_offset v + k * v_stride v"

definition view_read :: "store \<Rightarrow> view \<Rightarrow> real list" where
  "view_read st v = map (\<lambda>k. st ! v_buffer v ! cell v k) [0..<v_count v]"

definition view_write :: "store \<Rightarrow> view \<Rightarrow> nat \<Rightarrow> real \<Rightarrow> pyerr + store" where
  "view_write st v i x =
     (if i < v_count v then Inr (st[v_buffer v := (st ! v_buffer v)[cell v i := x]])
      else Inl IndexError)"

definition shares_memory :: "view \<Rightarrow> view \<Rightarrow> bool" where
  "shares_memory v w =
     (v_buffer v = v_buffer w \<and>
      (\<exists>i\<in>set [0..<v_count v]. \<exists>j\<in>set [0..<v_count w]. cell v i = cell w j))"

definition read_channel :: "store \<Rightarrow> view FASToutput \<Rightarrow> string \<Rightarrow> pyerr + real list" where
  "read_channel st s name =
     (case getitem s name of Inl e \<Rightarrow> Inl e | Inr v \<Rightarrow> Inr (view_read st v))"

definition write_sample :: "store \<Rightarrow> view FASToutput \<Rightarrow> string \<Rightarrow> nat \<Rightarrow> real \<Rightarrow> pyerr + store" where
  "write_sample st s name i x =
     (case getitem s name of Inl e \<Rightarrow> Inl e | Inr v \<Rightarrow> view_write st v i x)"

text \<open>
  \<open>np.loadtxt\<close> returns an array of \<open>nrows\<close> rows and \<open>ncols\<close> columns in one new buffer, the
  rows one after the other, so \<open>data[:,i]\<close> is the view from cell \<open>i\<close> in steps of \<open>ncols\<close>.
  As in \<open>np_column\<close>, what was read is squeezed first.
\<close>

definition column_view :: "nat \<Rightarrow> nat \<Rightarrow> nat \<Rightarrow> nat \<Rightarrow> view" where
  "column_view b nrows ncols i = \<lparr>v_buffer = b, v_offset = i, v_stride = ncols, v_count = nrows\<rparr>"

definition np_column_view :: "nat \<Rightarrow> nat \<Rightarrow> nat \<Rightarrow> nat \<Rightarrow> pyerr + view" where
  "np_column_view b nrows ncols i =
     (if nrows < 2 \<or> ncols < 2 then Inl IndexError
      else if i < ncols then Inr (column_view b nrows ncols i)
      else Inl IndexError)"

text \<open>The loop of lines 111-113 again, with every column as a view of the buffer \<open>b\<close>.\<close>

fun set_column_views ::
  "view FASToutput \<Rightarrow> nat \<Rightarrow> nat \<Rightarrow> nat \<Rightarrow> (nat \<times> string) list \<Rightarrow> pyerr + view FASToutput" where
  "set_column_views s b nrows ncols [] = Inr s"
| "set_column_views s b nrows ncols ((i, output) # rest) =
     (case np_column_view b nrows ncols i of
        Inl e \<Rightarrow> Inl e
      | Inr col \<Rightarrow>
          (case py_index (units s) (int i) of
             Inl e \<Rightarrow> Inl e
           | Inr u \<Rightarrow>
               set_column_views
                 (s\<lparr>attrs := (attrs s)(output \<mapsto> col),
                    output_units := (output_units s)(output \<mapsto> u)\<rparr>) b nrows ncols rest))"

text \<open>
  The slice \<open>a[k:]\<close> with \<open>0 \<le> k\<close> is a view of the buffer of \<open>a\<close>. The results of
  \<open>np.convolve\<close>, \<open>lfilter\<close>, \<open>data - mean\<close> and \<open>mag_sq**0.5\<close>, which the derivations hand
  to \<open>addOutput\<close>, are new arrays: a new buffer at the end of the store and the view of
  all of it.
\<close>

definition slice_from :: "view \<Rightarrow> nat \<Rightarrow> view" where
  "slice_from v k =
     v\<lparr>v_offset := cell v (min k (v_count v)), v_count := v_count v - k\<rparr>"

definition new_array :: "store \<Rightarrow> real list \<Rightarrow> store \<times> view" where
  "new_array st xs =
     (st @ [xs], \<lparr>v_buffer = length st, v_offset = 0, v_stride = 1, v_count = length xs\<rparr>)"

section \<open>Example tables\<close>

text \<open>
  The table read from a file with the names \<open>Time Power\<close>, the units \<open>(s) (kW)\<close> and the
  rows \<open>0 10\<close>, \<open>1 20\<close>, \<open>2 15\<close>.
\<close>

definition scenario_table :: "real list FASToutput" where
  "scenario_table =
     \<lparr>verbose = False, default_aliases = False, outputs = [''Time'', ''Power''],
      units = [''s'', ''kW''], output_units = [''Time'' \<mapsto> ''s'', ''Power'' \<mapsto> ''kW''],
      Noutputs = 2, Nlines = 3,
      attrs = [''Time'' \<mapsto> [0, 1, 2], ''Power'' \<mapsto> [10, 20, 15]]\<rparr>"

text \<open>A table in which, of the names \<open>A\<close>, \<open>B\<close> and \<open>C\<close>, only \<open>B\<close> exists.\<close>

definition alias_table :: "real list FASToutput" where
  "alias_table =
     \<lparr>verbose = False, default_aliases = False, outputs = [''Time'', ''B''],
      units = [''s'', ''kN''], output_units = [''Time'' \<mapsto> ''s'', ''B'' \<mapsto> ''kN''],
      Noutputs = 2, Nlines = 3,
      attrs = [''Time'' \<mapsto> [0, 1, 2], ''B'' \<mapsto> [1, 2, 3]]\<rparr>"

text \<open>
  The scenario's table with its two channels as the columns of the array of three rows
  and two columns that \<open>np.loadtxt\<close> read into buffer 0, and the table as it is before the
  loop of lines 111-113 binds the columns.
\<close>

definition shared_store :: store where
  "shared_store = [[0, 10, 1, 20, 2, 15]]"

definition shared_header :: "view FASToutput" where
  "shared_header =
     \<lparr>verbose = False, default_aliases = False, outputs = [''Time'', ''Power''],
      units = [''s'', ''kW''], output_units = Map.empty,
      Noutputs = 2, Nlines = 3, attrs = Map.empty\<rparr>"

definition shared_table :: "view FASToutput" where
  "shared_table =
     \<lparr>verbose = False, default_aliases = False, outputs = [''Time'', ''Power''],
      units = [''s'', ''kW''], output_units = [''Time'' \<mapsto> ''s'', ''Power'' \<mapsto> ''kW''],
      Noutputs = 2, Nlines = 3,
      attrs = [''Time'' \<mapsto> column_view 0 3 2 0, ''Power'' \<mapsto> column_view 0 3 2 1]\<rparr>"

text \<open>
  The moving average in the words of the specification: entry \<open>k\<close> is the mean of the
  \<open>n\<close> samples from \<open>k\<close> on, and there is one entry for every window that lies inside the
  data.
\<close>

definition boxcar_mean :: "real list \<Rightarrow> nat \<Rightarrow> real list" where
  "boxcar_mean data n =
     map (\<lambda>k. (\<Sum>i<n. data ! (k + i)) / real n) [0..<length data - n + 1]"

text \<open>
  A table of 1000 samples taken every 0.01 s, read with the default aliases, so that the
  attribute \<open>t\<close> exists.
\<close>

definition long_time :: "real list" where
  "long_time = map (\<lambda>i. fl (real i / 100)) [0..<1000]"

definition long_data :: "real list" where
  "long_data = map (\<lambda>i. real (i mod 7)) [0..<1000]"

definition long_table :: "real list FASToutput" where
  "long_table =
     \<lparr>verbose = False, default_aliases = True, outputs = [''Time'', ''Wind'', ''t''],
      units = [''s'', ''m/s''], output_units = [''Time'' \<mapsto> ''s'', ''Wind'' \<mapsto> ''m/s''],
      Noutputs = 2, Nlines = 1000,
      attrs = [''Time'' \<mapsto> long_time, ''Wind'' \<mapsto> long_data, ''t'' \<mapsto> long_time]\<rparr>"

text \<open>A table of four samples taken every 0.3 s from 0.1 s on.\<close>

definition coarse_table :: "real list FASToutput" where
  "coarse_table =
     \<lparr>verbose = False, default_aliases = True, outputs = [''Time'', ''Wind'', ''t''],
      units = [''s'', ''m/s''], output_units = [''Time'' \<mapsto> ''s'', ''Wind'' \<mapsto> ''m/s''],
      Noutputs = 2, Nlines = 4,
      attrs = [''Time'' \<mapsto> [1 / 10, 4 / 10, 7 / 10, 1], ''Wind'' \<mapsto> [3, 1, 4, 1],
               ''t'' \<mapsto> [1 / 10, 4 / 10, 7 / 10, 1]]\<rparr>"

text \<open>A table whose channel \<open>gust\<close> has two samples, against six samples of time.\<close>

definition short_table :: "real list FASToutput" where
  "short_table =
     \<lparr>verbose = False, default_aliases = True, outputs = [''Time'', ''Wind'', ''t'', ''gust''],
      units = [''s'', ''m/s''], output_units = [''Time'' \<mapsto> ''s'', ''Wind'' \<mapsto> ''m/s''],
      Noutputs = 2, Nlines = 6,
      attrs = [''Time'' \<mapsto> [0, 1, 2, 3, 4, 5], ''Wind'' \<mapsto> [3, 1, 4, 1, 5, 9],
               ''t'' \<mapsto> [0, 1, 2, 3, 4, 5], ''gust'' \<mapsto> [1, 2]]\<rparr>"

text \<open>A filter that returns its input: a stand-in where the filter is not reached.\<close>

definition no_filter :: lowpass where
  "no_filter order fc dt data = Inr data"

text \<open>
  A table with a mean of three samples for the six samples of \<open>Wind\<close>, a channel \<open>gust\<close> of
  two samples and a channel \<open>peak\<close> of one.
\<close>

definition fluc_table :: "real list FASToutput" where
  "fluc_table =
     \<lparr>verbose = False, default_aliases = False,
      outputs = [''Time'', ''Wind'', ''Wind_mean'', ''gust'', ''peak''],
      units = [''s'', ''m/s''], output_units = [''Time'' \<mapsto> ''s'', ''Wind'' \<mapsto> ''m/s''],
      Noutputs = 2, Nlines = 6,
      attrs = [''Time'' \<mapsto> [0, 1, 2, 3, 4, 5], ''Wind'' \<mapsto> [3, 1, 4, 1, 5, 9],
               ''Wind_mean'' \<mapsto> [2, 2, 3], ''gust'' \<mapsto> [1, 2], ''peak'' \<mapsto> [5]]\<rparr>"

text \<open>
  The magnitude in the words of the specification: entry \<open>k\<close> is the square root of the
  sum of the squares of the components' entries \<open>k\<close>.
\<close>

definition vector_norm :: "real list list \<Rightarrow> nat \<Rightarrow> real list" where
  "vector_norm cols n = map (\<lambda>k. sqrt (\<Sum>col\<leftarrow>cols. (col ! k)\<^sup>2)) [0..<n]"

text \<open>A table with two force components, and the same table with an alias for the first.\<close>

definition force_table :: "real list FASToutput" where
  "force_table =
     \<lparr>verbose = False, default_aliases = False, outputs = [''Time'', ''Fx'', ''Fy''],
      units = [''s'', ''kN'', ''kN''],
      output_units = [''Time'' \<mapsto> ''s'', ''Fx'' \<mapsto> ''kN'', ''Fy'' \<mapsto> ''kN''],
      Noutputs = 3, Nlines = 3,
      attrs = [''Time'' \<mapsto> [0, 1, 2], ''Fx'' \<mapsto> [3, 3, 3], ''Fy'' \<mapsto> [4, 4, 4]]\<rparr>"

definition force_alias_table :: "real list FASToutput" where
  "force_alias_table = snd (setAlias force_table ''T'' [''RotThrust'', ''Fx''])"

text \<open>The scenario's table after \<open>_setAlias('t', 'Time')\<close>.\<close>

definition scenario_alias_table :: "real list FASToutput" where
  "scenario_alias_table = snd (setAlias scenario_table ''t'' [''Time''])"

text \<open>
  The scenario's file and the same file with a single row of data, with what numpy's
  \<open>loadtxt\<close> reads from the rows of each.
\<close>

definition scenario_file :: "string list" where
  "scenario_file =
     [''FAST output'', '''', ''Description'', '''', '''', '''',
      ''Time Power'', ''(s) (kW)'', ''0 10'', ''1 20'', ''2 15'']"

definition single_row_file :: "string list" where
  "single_row_file =
     [''FAST output'', '''', ''Description'', '''', '''', '''',
      ''Time Power'', ''(s) (kW)'', ''0 10'']"

definition example_loadtxt :: loadtxt where
  "example_loadtxt f skiprows =
     (if drop skiprows f = [''0 10'', ''1 20'', ''2 15''] then Inr [[0, 10], [1, 20], [2, 15]]
      else if drop skiprows f = [''0 10''] then Inr [[0, 10]]
      else Inl ValueError)"

section \<open>Adding a channel\<close>

lemma addOutput_existing: "name \<in> set (outputs s) \<Longrightarrow> addOutput s name data unit = s"
  by (simp add: addOutput_def)

lemma addOutput_outputs:
  "outputs (addOutput s name data unit) =
     (if name \<in> set (outputs s) then outputs s else outputs s @ [name])"
  by (simp add: addOutput_def Let_def split: option.split)

lemma addOutput_attrs:
  "attrs (addOutput s name data unit) =
     (if name \<in> set (outputs s) then attrs s else (attrs s)(name \<mapsto> data))"
  by (simp add: addOutput_def Let_def split: option.split)

lemma addOutput_units: "units (addOutput s name data unit) = units s"
  by (simp add: addOutput_def Let_def split: option.split)

lemma addOutput_output_units:
  "output_units (addOutput s name data unit) =
     (if name \<in> set (outputs s) then output_units s
      else (case unit of None \<Rightarrow> output_units s
                       | Some u \<Rightarrow> (output_units s)(name \<mapsto> u)))"
  by (simp add: addOutput_def Let_def split: option.split)

lemma addOutput_mem: "name \<in> set (outputs (addOutput s name data unit))"
  by (simp add: addOutput_outputs)

text \<open>
  Claim C3. Adding under a name that is already in the table changes nothing and cannot
  raise (\<open>addOutput\<close> is a total function with no error result); so a second \<open>addOutput\<close>
  with the same name and other data leaves the table as the first call made it, and
  where the name was new before the first call, the table answers with the data added
  first.
\<close>

theorem addOutput_twice_keeps_first:
  "(name \<in> set (outputs s) \<longrightarrow> addOutput s name data unit = s) \<and>
   addOutput (addOutput s name d1 u1) name d2 u2 = addOutput s name d1 u1 \<and>
   (name \<notin> set (outputs s) \<longrightarrow>
      getitem (addOutput (addOutput s name d1 u1) name d2 u2) name = Inr d1)"
proof (intro conjI impI)
  show "addOutput s name data unit = s" if "name \<in> set (outputs s)"
    using that by (rule addOutput_existing)
  show twice: "addOutput (addOutput s name d1 u1) name d2 u2 = addOutput s name d1 u1"
    by (rule addOutput_existing) (rule addOutput_mem)
  show "getitem (addOutput (addOutput s name d1 u1) name d2 u2) name = Inr d1"
    if "name \<notin> set (outputs s)"
    using that by (simp add: twice getitem_def getattr_def addOutput_outputs addOutput_attrs)
qed

theorem addOutput_twice_keeps_first_witness:
  "addOutput scenario_table ''Power'' [1, 2, 3] None = scenario_table \<and>
   addOutput (addOutput scenario_table ''Wind'' [1, 2, 3] None) ''Wind'' [7, 8, 9] None =
     addOutput scenario_table ''Wind'' [1, 2, 3] None \<and>
   getitem (addOutput (addOutput scenario_table ''Wind'' [1, 2, 3] None) ''Wind'' [7, 8, 9] None)
     ''Wind'' = Inr [1, 2, 3]"
proof -
  have old: "''Power'' \<in> set (outputs scenario_table)"
    and new: "''Wind'' \<notin> set (outputs scenario_table)"
    by (simp_all add: scenario_table_def)
  show ?thesis
    using old new
      addOutput_twice_keeps_first [of "''Power''" scenario_table "[1, 2, 3]" None "[1, 2, 3]" None "[7, 8, 9]" None]
      addOutput_twice_keeps_first [of "''Wind''" scenario_table "[1, 2, 3]" None "[1, 2, 3]" None "[7, 8, 9]" None]
    by blast
qed

section \<open>Aliases\<close>

lemma setAlias_fst: "fst (setAlias s name aliases) = PyNone"
  by (induction aliases) (auto simp: split: sum.splits)

lemma setAlias_snd:
  "snd (setAlias s name aliases) =
     (case find (\<lambda>a. attrs s a \<noteq> None) aliases of
        None \<Rightarrow> s
      | Some a \<Rightarrow> addOutput s name (the (attrs s a)) None)"
  by (induction aliases) (auto simp: getattr_def split: sum.splits option.splits)

lemma find_attr_Some: "find (\<lambda>a. attrs s a \<noteq> None) aliases = Some a \<Longrightarrow> attrs s a \<noteq> None"
  by (auto simp: find_Some_iff)

text \<open>
  Claim C4, as amended. Let the new name and the candidates be channel names, that is,
  none of the names of the object's own fields and methods. \<open>_setAlias\<close> tries the
  candidates in the order given and hands the data of the first one that is an attribute
  of the object to \<open>addOutput\<close> under the new name, so that where the new name is not yet
  in the table, the table then answers for it with that data; with no such candidate the
  object is left as it was. The value returned is \<open>None\<close> in both cases.
\<close>

theorem setAlias_first_candidate:
  assumes "channel_name name" and "\<forall>a\<in>set aliases. channel_name a"
  shows "fst (setAlias s name aliases) = PyNone \<and>
   (case find (\<lambda>a. attrs s a \<noteq> None) aliases of
      None \<Rightarrow> snd (setAlias s name aliases) = s
    | Some a \<Rightarrow>
        snd (setAlias s name aliases) = addOutput s name (the (attrs s a)) None \<and>
        (name \<notin> set (outputs s) \<longrightarrow>
           getitem (snd (setAlias s name aliases)) name = Inr (the (attrs s a))))"
  by (simp add: setAlias_fst setAlias_snd getitem_def getattr_def addOutput_outputs
      addOutput_attrs split: option.split)

theorem setAlias_first_candidate_witness:
  "channel_name ''X'' \<and> channel_name ''A'' \<and> channel_name ''B'' \<and> channel_name ''C'' \<and>
   snd (setAlias alias_table ''X'' [''A'', ''B'']) = addOutput alias_table ''X'' [1, 2, 3] None \<and>
   getitem (snd (setAlias alias_table ''X'' [''A'', ''B''])) ''X'' = Inr [1, 2, 3] \<and>
   snd (setAlias alias_table ''X'' [''A'', ''C'']) = alias_table"
proof -
  have b: "find (\<lambda>a. attrs alias_table a \<noteq> None) [''A'', ''B''] = Some ''B''"
    and c: "find (\<lambda>a. attrs alias_table a \<noteq> None) [''A'', ''C''] = None"
    and d: "the (attrs alias_table ''B'') = [1, 2, 3]"
    and x: "''X'' \<notin> set (outputs alias_table)"
    by (simp_all add: alias_table_def)
  have n: "channel_name ''X''" "channel_name ''A''" "channel_name ''B''" "channel_name ''C''"
    by (simp_all add: channel_name_def own_attributes_def)
  have ab: "\<forall>a\<in>set [''A'', ''B'']. channel_name a" and ac: "\<forall>a\<in>set [''A'', ''C'']. channel_name a"
    using n by simp_all
  from x n show ?thesis
    using setAlias_first_candidate [OF n(1) ab, of alias_table, unfolded b option.case d]
      setAlias_first_candidate [OF n(1) ac, of alias_table, unfolded c option.case]
    by blast
qed

text \<open>
  The claim as written fails on the value returned: with the candidates \<open>A\<close>, \<open>B\<close> of
  which only \<open>B\<close> exists, the alias is bound and the call does not return \<open>True\<close>; with
  \<open>A\<close>, \<open>C\<close> nothing is bound and the call does not return \<open>False\<close>.
\<close>

theorem setAlias_returns_no_boolean:
  "fst (setAlias alias_table ''X'' [''A'', ''B'']) \<noteq> PyBool True \<and>
   getitem (snd (setAlias alias_table ''X'' [''A'', ''B''])) ''X'' = Inr [1, 2, 3] \<and>
   fst (setAlias alias_table ''X'' [''A'', ''C'']) \<noteq> PyBool False \<and>
   snd (setAlias alias_table ''X'' [''A'', ''C'']) = alias_table"
proof -
  have b: "find (\<lambda>a. attrs alias_table a \<noteq> None) [''A'', ''B''] = Some ''B''"
    and c: "find (\<lambda>a. attrs alias_table a \<noteq> None) [''A'', ''C''] = None"
    and d: "the (attrs alias_table ''B'') = [1, 2, 3]"
    and x: "''X'' \<notin> set (outputs alias_table)"
    by (simp_all add: alias_table_def)
  have "snd (setAlias alias_table ''X'' [''A'', ''B'']) = addOutput alias_table ''X'' [1, 2, 3] None"
    by (simp only: setAlias_snd b d option.case)
  moreover have "getitem (addOutput alias_table ''X'' [1, 2, 3] None) ''X'' = Inr [1, 2, 3]"
    using x by (simp add: getitem_def getattr_def addOutput_outputs addOutput_attrs)
  moreover have "snd (setAlias alias_table ''X'' [''A'', ''C'']) = alias_table"
    by (simp only: setAlias_snd c option.case)
  ultimately show ?thesis
    by (simp add: setAlias_fst del: setAlias.simps)
qed

section \<open>Sharing between names\<close>

lemma view_write_unshared:
  assumes "\<not> shares_memory v w" and "view_write st v i x = Inr st'"
  shows "view_read st' w = view_read st w"
proof -
  from assms(2) have i: "i < v_count v"
    and st': "st' = st[v_buffer v := (st ! v_buffer v)[cell v i := x]]"
    by (simp_all add: view_write_def split: if_splits)
  have "st' ! v_buffer w ! cell w k = st ! v_buffer w ! cell w k" if "k < v_count w" for k
  proof (cases "v_buffer v = v_buffer w")
    case True
    with assms(1) i that have "cell v i \<noteq> cell w k"
      by (auto simp: shares_memory_def)
    with True show ?thesis
      by (cases "v_buffer w < length st") (simp_all add: st' list_update_beyond not_less)
  next
    case False
    then show ?thesis by (simp add: st')
  qed
  then show ?thesis by (simp add: view_read_def)
qed

lemma write_sample_unshared:
  assumes "getitem s n1 = Inr v1" "getitem s n2 = Inr v2" "\<not> shares_memory v1 v2"
    and "write_sample st s n1 i x = Inr st'"
  shows "read_channel st' s n2 = read_channel st s n2"
proof -
  from assms(1,4) have "view_write st v1 i x = Inr st'"
    by (simp add: write_sample_def)
  from view_write_unshared [OF assms(3) this] assms(2) show ?thesis
    by (simp add: read_channel_def)
qed

lemma write_sample_shared:
  assumes "getitem s n1 = Inr v" "getitem s n2 = Inr v"
    and "v_buffer v < length st" "cell v i < length (st ! v_buffer v)"
    and "write_sample st s n1 i x = Inr st'"
  shows "read_channel st' s n2 = Inr (view_read st' v) \<and> view_read st' v ! i = x"
proof -
  from assms(1,5) have i: "i < v_count v"
    and st': "st' = st[v_buffer v := (st ! v_buffer v)[cell v i := x]]"
    by (simp_all add: write_sample_def view_write_def split: if_splits)
  from i have "view_read st' v ! i = st' ! v_buffer v ! cell v i"
    by (simp add: view_read_def)
  also have "\<dots> = x" using assms(3,4) by (simp add: st')
  finally show ?thesis using assms(2) by (simp add: read_channel_def)
qed

lemma columns_disjoint:
  assumes "i < ncols" "j < ncols" "i \<noteq> j"
  shows "\<not> shares_memory (column_view b nrows ncols i) (column_view b nrows ncols j)"
proof
  assume "shares_memory (column_view b nrows ncols i) (column_view b nrows ncols j)"
  then obtain k l where "i + k * ncols = j + l * ncols"
    by (auto simp: shares_memory_def column_view_def cell_def)
  then have "(i + k * ncols) mod ncols = (j + l * ncols) mod ncols" by simp
  with assms show False by simp
qed

lemma slice_shares_memory:
  assumes "k < v_count v"
  shows "shares_memory (slice_from v k) v"
proof -
  from assms have "0 \<in> set [0..<v_count (slice_from v k)]" "k \<in> set [0..<v_count v]"
    and "cell (slice_from v k) 0 = cell v k"
    by (simp_all add: slice_from_def cell_def)
  then show ?thesis unfolding shares_memory_def
    by (metis (no_types, lifting) slice_from_def select_convs(1) surjective update_convs(2,4))
qed

lemma new_array_unshared:
  assumes "v_buffer w < length st"
  shows "\<not> shares_memory (snd (new_array st xs)) w"
    and "view_read (fst (new_array st xs)) w = view_read st w"
    and "view_read (fst (new_array st xs)) (snd (new_array st xs)) = xs"
proof -
  show "\<not> shares_memory (snd (new_array st xs)) w"
    using assms by (simp add: shares_memory_def new_array_def)
  show "view_read (fst (new_array st xs)) w = view_read st w"
    using assms by (simp add: view_read_def new_array_def nth_append)
  show "view_read (fst (new_array st xs)) (snd (new_array st xs)) = xs"
    by (simp add: view_read_def new_array_def cell_def map_nth)
qed

lemma set_column_views_outputs:
  "set_column_views s b nrows ncols ps = Inr s' \<Longrightarrow> outputs s' = outputs s"
proof (induction ps arbitrary: s)
  case Nil
  then show ?case by simp
next
  case (Cons p ps)
  obtain i nm where p: "p = (i, nm)" by (cases p)
  from Cons.prems obtain col u where
    rest: "set_column_views (s\<lparr>attrs := (attrs s)(nm \<mapsto> col),
        output_units := (output_units s)(nm \<mapsto> u)\<rparr>) b nrows ncols ps = Inr s'"
    by (auto simp: p split: sum.splits)
  from Cons.IH [OF rest] show ?case by simp
qed

lemma set_column_views_attrs_other:
  "set_column_views s b nrows ncols (enumerate k names) = Inr s' \<Longrightarrow> n \<notin> set names \<Longrightarrow>
   attrs s' n = attrs s n"
proof (induction names arbitrary: s k)
  case Nil
  then show ?case by simp
next
  case (Cons x xs)
  from Cons.prems(1) obtain col u where
    rest: "set_column_views (s\<lparr>attrs := (attrs s)(x \<mapsto> col),
        output_units := (output_units s)(x \<mapsto> u)\<rparr>) b nrows ncols (enumerate (Suc k) xs) = Inr s'"
    by (auto split: sum.splits)
  from Cons.IH [OF rest] Cons.prems(2) show ?case by simp
qed

lemma set_column_views_attrs:
  assumes "set_column_views s b nrows ncols (enumerate k names) = Inr s'" and "n \<in> set names"
  shows "\<exists>i<length names. names ! i = n \<and> k + i < ncols \<and>
           attrs s' n = Some (column_view b nrows ncols (k + i))"
  using assms
proof (induction names arbitrary: s k)
  case Nil
  then show ?case by simp
next
  case (Cons x xs)
  from Cons.prems(1) obtain u where k: "k < ncols"
    and rest: "set_column_views (s\<lparr>attrs := (attrs s)(x \<mapsto> column_view b nrows ncols k),
        output_units := (output_units s)(x \<mapsto> u)\<rparr>) b nrows ncols (enumerate (Suc k) xs) = Inr s'"
    by (auto simp: np_column_view_def split: sum.splits if_splits)
  show ?case
  proof (cases "n \<in> set xs")
    case True
    from Cons.IH [OF rest True] obtain i where "i < length xs" "xs ! i = n" "Suc k + i < ncols"
      "attrs s' n = Some (column_view b nrows ncols (Suc k + i))"
      by blast
    then have "Suc i < length (x # xs) \<and> (x # xs) ! Suc i = n \<and> k + Suc i < ncols \<and>
        attrs s' n = Some (column_view b nrows ncols (k + Suc i))"
      by simp
    then show ?thesis by blast
  next
    case False
    with Cons.prems(2) have n: "n = x" by simp
    from set_column_views_attrs_other [OF rest False]
    have "attrs s' n = Some (column_view b nrows ncols k)" by (simp add: n)
    with k n have "0 < length (x # xs) \<and> (x # xs) ! 0 = n \<and> k + 0 < ncols \<and>
        attrs s' n = Some (column_view b nrows ncols (k + 0))"
      by simp
    then show ?thesis by blast
  qed
qed

lemma parsed_columns_unshared:
  assumes "set_column_views s b nrows ncols (enumerate 0 (outputs s)) = Inr s'"
    and "n1 \<in> set (outputs s)" "n2 \<in> set (outputs s)" "n1 \<noteq> n2"
  shows "\<exists>v1 v2. getitem s' n1 = Inr v1 \<and> getitem s' n2 = Inr v2 \<and> \<not> shares_memory v1 v2"
proof -
  from set_column_views_attrs [OF assms(1,2)] obtain i where
    i: "outputs s ! i = n1" "i < ncols" "attrs s' n1 = Some (column_view b nrows ncols i)"
    by auto
  from set_column_views_attrs [OF assms(1,3)] obtain j where
    j: "outputs s ! j = n2" "j < ncols" "attrs s' n2 = Some (column_view b nrows ncols j)"
    by auto
  from i(1) j(1) assms(4) have "i \<noteq> j" by auto
  from columns_disjoint [OF i(2) j(2) this] i(3) j(3) assms(2,3)
    set_column_views_outputs [OF assms(1)]
  show ?thesis by (simp add: getitem_def getattr_def)
qed

lemma setAlias_same_object:
  assumes "find (\<lambda>a. attrs s a \<noteq> None) aliases = Some a" "name \<notin> set (outputs s)"
  shows "getitem (snd (setAlias s name aliases)) name = getattr s a"
  using assms find_attr_Some [OF assms(1)]
  by (auto simp: setAlias_snd getitem_def getattr_def addOutput_outputs addOutput_attrs)

text \<open>
  Claim C5, as amended. Two names of a table whose arrays share no memory are independent:
  a write through one leaves what is read through the other unchanged. That holds for two
  different channels read from the file, which are different columns of the array that was
  read, and for a channel in a new array, as the derivations add them, against every array
  that was there before. It does not hold for an alias, which is not a copy: for channel
  names, \<open>_setAlias\<close> stores under the new name the very array that the first existing
  candidate holds, and a write through one of two names that hold one array is read
  through the other.
\<close>

theorem unshared_arrays_independent:
  "(getitem s n1 = Inr v1 \<and> getitem s n2 = Inr v2 \<and> \<not> shares_memory v1 v2 \<and>
      write_sample st s n1 i x = Inr st' \<longrightarrow>
      read_channel st' s n2 = read_channel st s n2) \<and>
   (set_column_views s b nrows ncols (enumerate 0 (outputs s)) = Inr s' \<and>
      n1 \<in> set (outputs s) \<and> n2 \<in> set (outputs s) \<and> n1 \<noteq> n2 \<longrightarrow>
      (\<exists>w1 w2. getitem s' n1 = Inr w1 \<and> getitem s' n2 = Inr w2 \<and> \<not> shares_memory w1 w2)) \<and>
   (name \<notin> set (outputs s) \<and> getitem s n2 = Inr v2 \<and> v_buffer v2 < length st \<longrightarrow>
      getitem (addOutput s name (snd (new_array st xs)) unit) name = Inr (snd (new_array st xs)) \<and>
      \<not> shares_memory (snd (new_array st xs)) v2 \<and>
      view_read (fst (new_array st xs)) v2 = view_read st v2) \<and>
   (channel_name name \<and> (\<forall>c\<in>set aliases. channel_name c) \<and>
      find (\<lambda>c. attrs s c \<noteq> None) aliases = Some a \<and> name \<notin> set (outputs s) \<longrightarrow>
      getitem (snd (setAlias s name aliases)) name = getattr s a) \<and>
   (getitem s n1 = Inr v \<and> getitem s n2 = Inr v \<and> v_buffer v < length st \<and>
      cell v i < length (st ! v_buffer v) \<and> write_sample st s n1 i x = Inr st' \<longrightarrow>
      read_channel st' s n2 = Inr (view_read st' v) \<and> view_read st' v ! i = x)"
proof -
  have "getitem (addOutput s name (snd (new_array st xs)) unit) name = Inr (snd (new_array st xs))"
    if "name \<notin> set (outputs s)"
    using that by (simp add: getitem_def getattr_def addOutput_outputs addOutput_attrs)
  then show ?thesis
    using write_sample_unshared [of s n1 v1 n2 v2 st i x st']
      parsed_columns_unshared [of s b nrows ncols s' n1 n2]
      new_array_unshared(1,2) [of v2 st xs]
      setAlias_same_object [of s aliases a name]
      write_sample_shared [of s n1 v n2 st i x st']
    by blast
qed

lemma shared_facts:
  "getitem shared_table ''Time'' = Inr (column_view 0 3 2 0)"
  "getitem shared_table ''Power'' = Inr (column_view 0 3 2 1)"
  "write_sample shared_store shared_table ''Time'' 0 5 = Inr [[5, 10, 1, 20, 2, 15]]"
  "read_channel shared_store shared_table ''Power'' = Inr [10, 20, 15]"
  "set_column_views shared_header 0 3 2 (enumerate 0 (outputs shared_header)) = Inr shared_table"
  "find (\<lambda>c. attrs shared_table c \<noteq> None) [''Time''] = Some ''Time''"
  "''t'' \<notin> set (outputs shared_table)"
  "''Time'' \<in> set (outputs shared_header)" "''Power'' \<in> set (outputs shared_header)"
  "channel_name ''t''" "channel_name ''Time''"
  "v_buffer (column_view 0 3 2 1) < length shared_store"
  by (simp_all add: shared_table_def shared_header_def shared_store_def write_sample_def
      read_channel_def view_write_def view_read_def getitem_def getattr_def column_view_def
      np_column_view_def cell_def py_index_def channel_name_def own_attributes_def upt_rec)

theorem unshared_arrays_independent_witness:
  "write_sample shared_store shared_table ''Time'' 0 5 = Inr [[5, 10, 1, 20, 2, 15]] \<and>
   read_channel [[5, 10, 1, 20, 2, 15]] shared_table ''Power'' = Inr [10, 20, 15] \<and>
   \<not> shares_memory (column_view 0 3 2 0) (column_view 0 3 2 1) \<and>
   (\<exists>w1 w2. getitem shared_table ''Time'' = Inr w1 \<and> getitem shared_table ''Power'' = Inr w2 \<and>
      \<not> shares_memory w1 w2) \<and>
   \<not> shares_memory (snd (new_array shared_store [15, 15])) (column_view 0 3 2 1) \<and>
   getitem (snd (setAlias shared_table ''t'' [''Time''])) ''t'' = getattr shared_table ''Time''"
proof -
  have d: "\<not> shares_memory (column_view 0 3 2 0) (column_view 0 3 2 1)"
    by (simp add: columns_disjoint)
  have c: "\<forall>c\<in>set [''Time'']. channel_name c"
    by (simp add: shared_facts)
  have ne: "''Time'' \<noteq> ''Power''" by simp
  show ?thesis
    using d c ne shared_facts
      unshared_arrays_independent [of shared_table "''Time''" "column_view 0 3 2 0"
        "''Power''" "column_view 0 3 2 1" shared_store 0 5 "[[5, 10, 1, 20, 2, 15]]"
        0 3 2 shared_table "''t''" "[15, 15]" None "[''Time'']" "''Time''" "column_view 0 3 2 0"]
      unshared_arrays_independent [of shared_header "''Time''" "column_view 0 3 2 0"
        "''Power''" "column_view 0 3 2 1" shared_store 0 5 "[[5, 10, 1, 20, 2, 15]]"
        0 3 2 shared_table "''t''" "[15, 15]" None "[''Time'']" "''Time''" "column_view 0 3 2 0"]
    by (simp del: setAlias.simps set_column_views.simps)
qed

text \<open>
  The claim as written fails on a table with an alias: after \<open>_setAlias('t', 'Time')\<close> the
  names \<open>t\<close> and \<open>Time\<close> are different and both present, they hold the same view, and
  writing the first sample through \<open>t\<close> changes what \<open>Time\<close> reads.
\<close>

theorem alias_shares_array:
  "getitem (snd (setAlias shared_table ''t'' [''Time''])) ''t'' = Inr (column_view 0 3 2 0) \<and>
   getitem (snd (setAlias shared_table ''t'' [''Time''])) ''Time'' = Inr (column_view 0 3 2 0) \<and>
   write_sample shared_store (snd (setAlias shared_table ''t'' [''Time''])) ''t'' 0 5 =
     Inr [[5, 10, 1, 20, 2, 15]] \<and>
   read_channel shared_store (snd (setAlias shared_table ''t'' [''Time''])) ''Time'' = Inr [0, 1, 2] \<and>
   read_channel [[5, 10, 1, 20, 2, 15]] (snd (setAlias shared_table ''t'' [''Time''])) ''Time'' =
     Inr [5, 1, 2]"
  by (simp add: shared_table_def shared_store_def write_sample_def read_channel_def
      view_write_def view_read_def column_view_def cell_def getitem_def getattr_def
      addOutput_def upt_rec)

section \<open>Float arithmetic\<close>

lemma floor_log2_eq:
  assumes "2 powi e \<le> x" and "x < 2 powi (e + 1)"
  shows "\<lfloor>log 2 x\<rfloor> = e"
proof -
  have pos: "0 < x" using assms(1) by (smt (verit) zero_less_power_int)
  have a: "2 powi e = (2::real) powr of_int e" and b: "2 powi (e + 1) = (2::real) powr of_int (e + 1)"
    by (simp_all only: powr_real_of_int' [of 2, simplified])
  have "of_int e \<le> log 2 x"
    using assms(1) pos unfolding a by (simp add: le_log_iff)
  moreover have "log 2 x < of_int (e + 1)"
    using assms(2) pos unfolding b by (simp add: log_less_iff)
  ultimately show ?thesis by (simp add: floor_eq_iff)
qed

lemma fl_eval:
  assumes "2 powi e \<le> \<bar>x\<bar>" and "\<bar>x\<bar> < 2 powi (e + 1)"
  shows "fl x = of_int (round_even (x / 2 powi (e - 52))) * 2 powi (e - 52)"
proof -
  have "x \<noteq> 0" using assms(1) by (smt (verit) zero_less_power_int abs_zero)
  then show ?thesis
    by (simp add: fl_def floor_log2_eq [OF assms] Let_def)
qed

lemma fl_0: "fl 0 = 0"
  by (simp add: fl_def)

lemma fl_1: "fl 1 = 1"
  by (subst fl_eval [of 0]) (simp_all add: power_int_def power_one_over round_even_def Let_def)

lemma fl_3: "fl 3 = 3"
  by (subst fl_eval [of 1]) (simp_all add: power_int_def power_one_over round_even_def Let_def)

lemma fl_minus_2: "fl (- 2) = - 2"
  by (subst fl_eval [of 1]) (simp_all add: power_int_def power_one_over round_even_def Let_def)

lemma fl_11_4: "fl (11 / 4) = 11 / 4"
  by (subst fl_eval [of 1]) (simp_all add: power_int_def power_one_over round_even_def Let_def)

text \<open>
  The float64 values of \<open>0.01\<close>, \<open>0.29\<close>, \<open>0.3\<close>, \<open>0.1\<close> and \<open>0.4\<close>, and what float64 gives
  for \<open>1.0 / 0.01\<close>, \<open>0.29 / 0.01\<close>, \<open>0.3 / 0.1\<close>, \<open>0.4 - 0.1\<close> and \<open>0.3 / (0.4 - 0.1)\<close>:
  100, a number below 29, a number below 3, a number above \<open>0.3\<close>, and a number below 1.
\<close>

lemma fl_hundredth: "fl (1 / 100) = 5764607523034235 / 576460752303423488"
  by (subst fl_eval [of "-7"]) (simp_all add: power_int_def power_one_over round_even_def Let_def)

lemma fl_fl_hundredth: "fl (5764607523034235 / 576460752303423488) = 5764607523034235 / 576460752303423488"
  by (subst fl_eval [of "-7"]) (simp_all add: power_int_def power_one_over round_even_def Let_def)

lemma fl_29_hundredths: "fl (29 / 100) = 5224175567749775 / 18014398509481984"
  by (subst fl_eval [of "-2"]) (simp_all add: power_int_def power_one_over round_even_def Let_def)

lemma fl_3_tenths: "fl (3 / 10) = 5404319552844595 / 18014398509481984"
  by (subst fl_eval [of "-2"]) (simp_all add: power_int_def power_one_over round_even_def Let_def)

lemma fl_1_tenth: "fl (1 / 10) = 3602879701896397 / 36028797018963968"
  by (subst fl_eval [of "-4"]) (simp_all add: power_int_def power_one_over round_even_def Let_def)

lemma fl_fl_1_tenth: "fl (3602879701896397 / 36028797018963968) = 3602879701896397 / 36028797018963968"
  by (subst fl_eval [of "-4"]) (simp_all add: power_int_def power_one_over round_even_def Let_def)

lemma fl_4_tenths: "fl (4 / 10) = 3602879701896397 / 9007199254740992"
  by (subst fl_eval [of "-2"]) (simp_all add: power_int_def power_one_over round_even_def Let_def)

lemma float_div_1_hundredth: "float_div 1 (fl (1 / 100)) = 100"
  unfolding float_div_def fl_hundredth fl_fl_hundredth fl_1
  by (subst fl_eval [of 6]) (simp_all add: power_int_def power_one_over round_even_def Let_def)

lemma float_div_29_hundredths: "float_div (29 / 100) (fl (1 / 100)) = 8162774324609023 / 281474976710656"
  unfolding float_div_def fl_hundredth fl_fl_hundredth fl_29_hundredths
  by (subst fl_eval [of 4]) (simp_all add: power_int_def power_one_over round_even_def Let_def)

lemma float_sub_1_tenth: "float_sub (1 / 10) 0 = 3602879701896397 / 36028797018963968"
  unfolding float_sub_def fl_1_tenth fl_0 diff_zero fl_fl_1_tenth
  by (rule refl)

lemma float_div_3_tenths: "float_div (3 / 10) (3602879701896397 / 36028797018963968) = 6755399441055743 / 2251799813685248"
  unfolding float_div_def fl_3_tenths fl_fl_1_tenth
  by (subst fl_eval [of 1]) (simp_all add: power_int_def power_one_over round_even_def Let_def)

lemma float_sub_4_tenths: "float_sub (4 / 10) (1 / 10) = 1351079888211149 / 4503599627370496"
  unfolding float_sub_def fl_4_tenths fl_1_tenth
  by (subst fl_eval [of "-2"]) (simp_all add: power_int_def power_one_over round_even_def Let_def)

lemma fl_float_sub_4_tenths: "fl (1351079888211149 / 4503599627370496) = 1351079888211149 / 4503599627370496"
  by (subst fl_eval [of "-2"]) (simp_all add: power_int_def power_one_over round_even_def Let_def)

lemma float_div_3_tenths_coarse: "float_div (3 / 10) (1351079888211149 / 4503599627370496) = 4503599627370495 / 4503599627370496"
  unfolding float_div_def fl_3_tenths fl_float_sub_4_tenths
  by (subst fl_eval [of "-1"]) (simp_all add: power_int_def power_one_over round_even_def Let_def)

section \<open>The running mean\<close>

lemma py_index_nat: "py_index xs (int k) = (if k < length xs then Inr (xs ! k) else Inl IndexError)"
  by (simp add: py_index_def Let_def)

lemma py_index_0: "py_index xs 0 = (if xs = [] then Inl IndexError else Inr (xs ! 0))"
  using py_index_nat [of xs 0] by simp

lemma py_index_1: "py_index xs 1 = (if length xs < 2 then Inl IndexError else Inr (xs ! 1))"
  using py_index_nat [of xs 1] by auto

lemma sum_list_upt_conv: "(\<Sum>j\<leftarrow>[0..<n]. f j) = (\<Sum>j<n. f j)"
  by (simp add: interv_sum_list_conv_sum_set_nat atLeast0LessThan)

lemma convolve_at_boxcar:
  assumes "0 < n"
  shows "convolve_at data (replicate n c) k = c * (\<Sum>i<n. data ! (k + i))"
proof -
  have "convolve_at data (replicate n c) k = (\<Sum>j<n. c * data ! (k + (n - 1) - j))"
    unfolding convolve_at_def by (simp add: sum_list_upt_conv)
  also have "\<dots> = c * (\<Sum>j<n. data ! (k + (n - Suc j)))"
    by (simp add: sum_distrib_left)
  also have "(\<Sum>j<n. data ! (k + (n - Suc j))) = (\<Sum>i<n. data ! (k + i))"
    by (rule sum.nat_diff_reindex)
  finally show ?thesis .
qed

lemma convolve_valid_boxcar:
  assumes "0 < n" "n \<le> length data"
  shows "np_convolve_valid data (map (\<lambda>x. x / real n) (replicate n 1)) = Inr (boxcar_mean data n)"
proof -
  have "data \<noteq> []" using assms by auto
  then show ?thesis
    using assms by (simp add: np_convolve_valid_def boxcar_mean_def convolve_at_boxcar)
qed

lemma length_boxcar_mean: "length (boxcar_mean data n) = length data - n + 1"
  by (simp add: boxcar_mean_def)

lemma convolve_valid_length:
  assumes "a \<noteq> []" "v \<noteq> []"
  shows "np_convolve_valid a v = Inr (projr (np_convolve_valid a v))"
    and "length (projr (np_convolve_valid a v)) =
      max (length a) (length v) - min (length a) (length v) + 1"
  using assms by (simp_all add: np_convolve_valid_def Let_def)

lemma mean_name_not_t: "outputName @ ''_mean'' \<noteq> ''t''"
proof
  assume "outputName @ ''_mean'' = ''t''"
  then have "length (outputName @ ''_mean'') = length ''t''" by (rule arg_cong)
  then show False by simp
qed

lemma getattr_addOutput_t:
  "getattr (addOutput s (outputName @ ''_mean'') d u) ''t'' = getattr s ''t''"
  using mean_name_not_t [of outputName]
  by (simp add: getattr_def addOutput_attrs)

lemma running_mean_unfold:
  assumes "getattr s ''t'' = Inr t" and "2 \<le> length t"
    and "window_count Tavg (t ! 1) (t ! 0) = Inr N"
    and "getattr s outputName = Inr data"
  shows "running_mean s outputName Tavg =
    (case np_ones N of
       Inl e \<Rightarrow> (Inl e, s)
     | Inr ones \<Rightarrow>
       (case np_convolve_valid data (map (\<lambda>x. x / of_int N) ones) of
          Inl e \<Rightarrow> (Inl e, s)
        | Inr mean \<Rightarrow>
            (case py_index t (N + 1) of
               Inl e \<Rightarrow> (Inl e, addOutput s (outputName @ ''_mean'') mean None)
             | Inr tN \<Rightarrow> (Inr mean, addOutput s (outputName @ ''_mean'') mean None))))"
proof -
  have t0: "py_index t 0 = Inr (t ! 0)" and t1: "py_index t 1 = Inr (t ! 1)"
    using assms(2) by (auto simp: py_index_0 py_index_1)
  have wc: "window_count Tavg (t ! Suc 0) (t ! 0) = Inr N"
    using assms(3) by simp
  show ?thesis
    unfolding running_mean_def
    by (simp add: assms(1,4) wc t0 t1 Let_def getattr_addOutput_t cong: sum.case_cong)
qed

lemma running_mean_returns:
  assumes "getattr s ''t'' = Inr t" and "2 \<le> length t"
    and "window_count Tavg (t ! 1) (t ! 0) = Inr N"
    and "getattr s outputName = Inr data"
    and "0 \<le> N" and "N + 1 < int (length t)"
    and "np_convolve_valid data (map (\<lambda>x. x / of_int N) (replicate (nat N) 1)) = Inr m"
  shows "running_mean s outputName Tavg = (Inr m, addOutput s (outputName @ ''_mean'') m None)"
proof -
  have "py_index t (N + 1) = Inr (t ! nat (N + 1))"
    using assms(5,6) by (simp add: py_index_def Let_def)
  then show ?thesis
    using assms(5,7) by (simp add: running_mean_unfold [OF assms(1-4)] np_ones_def)
qed

lemma running_mean_raises:
  assumes "getattr s ''t'' = Inr t" and "2 \<le> length t"
    and "window_count Tavg (t ! 1) (t ! 0) = Inr N"
    and "getattr s outputName = Inr data"
    and "N < 1"
  shows "running_mean s outputName Tavg = (Inl ValueError, s)"
proof (cases "N < 0")
  case True
  then show ?thesis
    by (simp add: running_mean_unfold [OF assms(1-4)] np_ones_def)
next
  case False
  with assms(5) have "N = 0" by simp
  then show ?thesis
    by (simp add: running_mean_unfold [OF assms(1-4)] np_ones_def np_convolve_valid_def)
qed

lemma float_sub_long: "float_sub (long_time ! 1) (long_time ! 0) = fl (1 / 100)"
proof -
  have a: "long_time ! 1 = fl (1 / 100)" and b: "long_time ! 0 = 0"
    by (simp_all add: long_time_def fl_0)
  show ?thesis
    unfolding float_sub_def a b fl_hundredth fl_fl_hundredth fl_0 diff_zero
    by (rule refl)
qed

lemma window_count_long:
  "window_count 1 (long_time ! 1) (long_time ! 0) = Inr 100"
  "window_count (29 / 100) (long_time ! 1) (long_time ! 0) = Inr 28"
proof -
  have nz: "fl (1 / 100) \<noteq> 0"
    by (simp add: fl_hundredth)
  show "window_count 1 (long_time ! 1) (long_time ! 0) = Inr 100"
    unfolding window_count_def float_sub_long Let_def float_div_1_hundredth
    using nz by (simp add: py_int_def)
  show "window_count (29 / 100) (long_time ! 1) (long_time ! 0) = Inr 28"
    unfolding window_count_def float_sub_long Let_def float_div_29_hundredths
    using nz by (simp add: py_int_def)
qed

lemma window_count_short:
  "window_count (11 / 4) ([0, 1, 2, 3, 4, 5] ! 1) ([0, 1, 2, 3, 4, 5] ! 0) = Inr 2"
  "window_count (- 2) ([0, 1, 2, 3, 4, 5] ! 1) ([0, 1, 2, 3, 4, 5] ! 0) = Inr (- 2)"
  "window_count 3 ([0, 1, 2, 3, 4, 5] ! 1) ([0, 1, 2, 3, 4, 5] ! 0) = Inr 3"
  by (simp_all add: window_count_def Let_def float_sub_def float_div_def fl_0 fl_1 fl_11_4
      fl_minus_2 fl_3 py_int_def)

text \<open>
  \<open>int(0.3 / (0.1 - 0.0))\<close> is 2 and \<open>int(0.3 / (0.4 - 0.1))\<close> is 0, where the quotients of
  the real numbers are 3 and 1.
\<close>

lemma window_count_tenths:
  "window_count (3 / 10) (1 / 10) 0 = Inr 2"
  "window_count (3 / 10) (4 / 10) (1 / 10) = Inr 0"
proof -
  show "window_count (3 / 10) (1 / 10) 0 = Inr 2"
    unfolding window_count_def float_sub_1_tenth Let_def float_div_3_tenths
    by (simp add: py_int_def)
  show "window_count (3 / 10) (4 / 10) (1 / 10) = Inr 0"
    unfolding window_count_def float_sub_4_tenths Let_def float_div_3_tenths_coarse
    by (simp add: py_int_def)
qed

text \<open>
  Claim C1, as amended. \<open>running_mean\<close> reads the time axis from the attribute \<open>t\<close> and
  takes as window the number \<open>N = int(Tavg / (t[1] - t[0]))\<close>: the float64 quotient cut
  towards zero, not rounded. Where \<open>1 \<le> N \<le> len(data)\<close> and \<open>N + 1 < len(t)\<close>, it returns
  the moving average of the channel over windows of \<open>N\<close> samples, of length
  \<open>len(data) - N + 1\<close>, and hands it to \<open>addOutput\<close> under the channel's name followed by
  \<open>_mean\<close>; where that name is new, the table then answers for it with the average. For
  1000 samples at the float64 values of 0, 0.01, 0.02, ... and a window of 1.0 s, \<open>N\<close> is
  100 and the result has 901 samples.
\<close>

theorem running_mean_window:
  assumes "getattr s ''t'' = Inr t" and "2 \<le> length t"
    and "window_count Tavg (t ! 1) (t ! 0) = Inr N"
    and "getattr s outputName = Inr data"
    and "1 \<le> N" and "N \<le> int (length data)" and "N + 1 < int (length t)"
  shows "running_mean s outputName Tavg =
           (Inr (boxcar_mean data (nat N)),
            addOutput s (outputName @ ''_mean'') (boxcar_mean data (nat N)) None) \<and>
         length (boxcar_mean data (nat N)) = length data - nat N + 1 \<and>
         (outputName @ ''_mean'' \<notin> set (outputs s) \<longrightarrow>
            getitem (snd (running_mean s outputName Tavg)) (outputName @ ''_mean'') =
              Inr (boxcar_mean data (nat N)))"
proof -
  have n: "0 < nat N" "nat N \<le> length data" "0 \<le> N" "real (nat N) = of_int N"
    using assms(5,6) by auto
  have "np_convolve_valid data (map (\<lambda>x. x / of_int N) (replicate (nat N) 1)) =
      Inr (boxcar_mean data (nat N))"
    using convolve_valid_boxcar [OF n(1,2)] by (simp only: n(4))
  from running_mean_returns [OF assms(1-4) n(3) assms(7) this]
  show ?thesis
    by (simp add: length_boxcar_mean getitem_def getattr_def addOutput_outputs addOutput_attrs)
qed

lemma long_facts:
  "getattr long_table ''t'' = Inr long_time" "getattr long_table ''Wind'' = Inr long_data"
  "length long_time = 1000" "length long_data = 1000"
  "''Wind_mean'' \<notin> set (outputs long_table)"
  by (simp_all add: long_table_def getattr_def long_time_def long_data_def)

theorem running_mean_window_witness:
  "window_count 1 (long_time ! 1) (long_time ! 0) = Inr 100 \<and>
   running_mean long_table ''Wind'' 1 =
     (Inr (boxcar_mean long_data 100), addOutput long_table ''Wind_mean'' (boxcar_mean long_data 100) None) \<and>
   length (boxcar_mean long_data 100) = 901 \<and>
   getitem (snd (running_mean long_table ''Wind'' 1)) ''Wind_mean'' = Inr (boxcar_mean long_data 100) \<and>
   window_count (29 / 100) (long_time ! 1) (long_time ! 0) = Inr 28 \<and>
   fst (running_mean long_table ''Wind'' (29 / 100)) = Inr (boxcar_mean long_data 28) \<and>
   length (boxcar_mean long_data 28) = 973"
proof -
  have a: "(2::nat) \<le> length long_time" "(1::int) \<le> 100"
    "(100::int) \<le> int (length long_data)" "(100::int) + 1 < int (length long_time)"
    and b: "(1::int) \<le> 28" "(28::int) \<le> int (length long_data)"
    "(28::int) + 1 < int (length long_time)"
    by (simp_all add: long_facts)
  from running_mean_window [OF long_facts(1) a(1) window_count_long(1) long_facts(2) a(2,3,4)]
    running_mean_window [OF long_facts(1) a(1) window_count_long(2) long_facts(2) b]
  show ?thesis using long_facts(4,5) window_count_long by auto
qed

text \<open>
  The claim as written fails on the rounding: with time samples one second apart and a
  window of 2.75 s the quotient is 2.75, which rounds to 3 and would give 4 samples for a
  channel of 6; the source cuts it to 2 and returns 5.
\<close>

theorem running_mean_truncates:
  "window_count (11 / 4) ([0, 1, 2, 3, 4, 5] ! 1) ([0, 1, 2, 3, 4, 5] ! 0) = Inr 2 \<and>
   fst (running_mean short_table ''Wind'' (11 / 4)) = Inr (boxcar_mean [3, 1, 4, 1, 5, 9] 2) \<and>
   length (boxcar_mean [3, 1, 4, 1, 5, 9] 2) = 5 \<and>
   round (float_div (11 / 4) (float_sub ([0, 1, 2, 3, 4, 5] ! 1) ([0, 1, 2, 3, 4, 5] ! 0))) = (3::int) \<and>
   length [3, 1, 4, 1, 5, 9::real] - 3 + 1 = 4"
proof -
  have t: "getattr short_table ''t'' = Inr [0, 1, 2, 3, 4, 5]"
    and w: "getattr short_table ''Wind'' = Inr [3, 1, 4, 1, 5, 9]"
    by (simp_all add: short_table_def getattr_def)
  have r: "round (float_div (11 / 4) (float_sub ([0, 1, 2, 3, 4, 5] ! 1) ([0, 1, 2, 3, 4, 5] ! 0))) = (3::int)"
    by (simp add: float_sub_def float_div_def fl_0 fl_1 fl_11_4 round_def)
  have *: "2 \<le> length [0, 1, 2, 3, 4, 5::real]" "(0::int) \<le> 2"
    "(2::int) + 1 < int (length [0, 1, 2, 3, 4, 5::real])"
    by simp_all
  have "np_convolve_valid [3, 1, 4, 1, 5, 9] (map (\<lambda>x. x / of_int 2) (replicate (nat 2) 1)) =
      Inr (boxcar_mean [3, 1, 4, 1, 5, 9] 2)"
    using convolve_valid_boxcar [of 2 "[3, 1, 4, 1, 5, 9]"] by simp
  from running_mean_returns [OF t *(1) window_count_short(1) w *(2,3) this]
  show ?thesis using r window_count_short(1) by (simp add: length_boxcar_mean)
qed

text \<open>
  Claim C8, as amended. \<open>running_mean\<close> checks none of its arguments. With at least two
  time samples, a window \<open>N = int(Tavg / (t[1] - t[0]))\<close> that line 177 can compute (the
  float64 quotient is a finite number) and the channel present, it raises numpy's
  \<open>ValueError\<close> and leaves the table as it was whenever \<open>N\<close> is below 1, whatever the sign
  of \<open>Tavg\<close>; whenever \<open>N\<close> is at least 1, the channel is not empty and \<open>N + 1 < len(t)\<close>,
  it returns an average, also for \<open>N\<close> above the length of the channel, where the result
  has \<open>N - len(data) + 1\<close> samples.
\<close>

theorem running_mean_no_validation:
  assumes "getattr s ''t'' = Inr t" and "2 \<le> length t"
    and "window_count Tavg (t ! 1) (t ! 0) = Inr N"
    and "getattr s outputName = Inr data"
  shows "(N < 1 \<longrightarrow> running_mean s outputName Tavg = (Inl ValueError, s)) \<and>
         (1 \<le> N \<and> data \<noteq> [] \<and> N + 1 < int (length t) \<longrightarrow>
            (\<exists>mean. running_mean s outputName Tavg =
                      (Inr mean, addOutput s (outputName @ ''_mean'') mean None) \<and>
                    int (length mean) =
                      max N (int (length data)) - min N (int (length data)) + 1))"
proof (intro conjI impI)
  assume "N < 1"
  then show "running_mean s outputName Tavg = (Inl ValueError, s)"
    by (rule running_mean_raises [OF assms])
next
  assume ok: "1 \<le> N \<and> data \<noteq> [] \<and> N + 1 < int (length t)"
  let ?v = "map (\<lambda>x. x / of_int N) (replicate (nat N) (1::real))"
  from ok have v: "?v \<noteq> []" "length ?v = nat N" by auto
  define m where "m = projr (np_convolve_valid data ?v)"
  from ok have d: "data \<noteq> []" by simp
  have m: "np_convolve_valid data ?v = Inr m"
    "length m = max (length data) (length ?v) - min (length data) (length ?v) + 1"
    unfolding m_def using convolve_valid_length [OF d v(1)] by simp_all
  have "running_mean s outputName Tavg = (Inr m, addOutput s (outputName @ ''_mean'') m None)"
    using ok by (intro running_mean_returns [OF assms _ _ m(1)]) auto
  moreover have "int (length m) = max N (int (length data)) - min N (int (length data)) + 1"
    using ok unfolding m(2) v(2) by (auto simp: max_def min_def)
  ultimately show "\<exists>mean. running_mean s outputName Tavg =
        (Inr mean, addOutput s (outputName @ ''_mean'') mean None) \<and>
      int (length mean) = max N (int (length data)) - min N (int (length data)) + 1"
    by blast
qed

lemma short_facts:
  "getattr short_table ''t'' = Inr [0, 1, 2, 3, 4, 5]" "getattr short_table ''gust'' = Inr [1, 2]"
  by (simp_all add: short_table_def getattr_def)

lemma coarse_facts:
  "getattr coarse_table ''t'' = Inr [1 / 10, 4 / 10, 7 / 10, 1]"
  "getattr coarse_table ''Wind'' = Inr [3, 1, 4, 1]"
  "window_count (3 / 10) ([1 / 10, 4 / 10, 7 / 10, 1] ! 1) ([1 / 10, 4 / 10, 7 / 10, 1] ! 0) = Inr 0"
  using window_count_tenths(2) by (simp_all add: coarse_table_def getattr_def)

theorem running_mean_no_validation_witness:
  "running_mean short_table ''gust'' (- 2) = (Inl ValueError, short_table) \<and>
   (\<exists>mean. running_mean short_table ''gust'' 3 =
      (Inr mean, addOutput short_table ''gust_mean'' mean None) \<and> length mean = 2) \<and>
   running_mean coarse_table ''Wind'' (3 / 10) = (Inl ValueError, coarse_table)"
proof -
  have c: "2 \<le> length [0, 1, 2, 3, 4, 5::real]" "2 \<le> length [1 / 10, 4 / 10, 7 / 10, 1::real]"
    by simp_all
  show ?thesis
    using running_mean_no_validation [OF short_facts(1) c(1) window_count_short(2) short_facts(2)]
      running_mean_no_validation [OF short_facts(1) c(1) window_count_short(3) short_facts(2)]
      running_mean_no_validation [OF coarse_facts(1) c(2) coarse_facts(3) coarse_facts(2)]
    by auto
qed

text \<open>
  The claim as written fails for a window longer than the channel: on a channel of two
  samples with \<open>N = 3\<close> the call returns two samples and adds them to the table.
\<close>

theorem running_mean_window_exceeds_input:
  "window_count 3 ([0, 1, 2, 3, 4, 5] ! 1) ([0, 1, 2, 3, 4, 5] ! 0) = Inr 3 \<and>
   getattr short_table ''t'' = Inr [0, 1, 2, 3, 4, 5] \<and>
   getattr short_table ''gust'' = Inr [1, 2] \<and>
   running_mean short_table ''gust'' 3 =
     (Inr [1, 1], addOutput short_table ''gust_mean'' [1, 1] None)"
proof -
  have c: "2 \<le> length [0, 1, 2, 3, 4, 5::real]"
    "(0::int) \<le> 3" "(3::int) + 1 < int (length [0, 1, 2, 3, 4, 5::real])"
    by simp_all
  have "np_convolve_valid [1, 2] (map (\<lambda>x. x / of_int 3) (replicate (nat 3) 1)) = Inr [1, 1]"
    by (simp add: np_convolve_valid_def convolve_at_def eval_nat_numeral)
  from running_mean_returns [OF short_facts(1) c(1) window_count_short(3) short_facts(2) c(2,3) this]
  show ?thesis using window_count_short(3) short_facts by simp
qed

section \<open>Fluctuations\<close>

lemma fluctuations_from_longer_data:
  assumes "getattr s outputName = Inr data" and "getattr s meanName = Inr mean"
    and "length mean < length data"
  shows "fluctuations_from s outputName meanName = (Inl TypeError, s)"
  using assms(3) by (simp add: fluctuations_from_def assms(1,2))

lemma fluc_facts:
  "getattr fluc_table ''Wind'' = Inr [3, 1, 4, 1, 5, 9]"
  "getattr fluc_table ''Wind_mean'' = Inr [2, 2, 3]"
  "getattr fluc_table ''gust'' = Inr [1, 2]"
  "getattr fluc_table ''peak'' = Inr [5]"
  "attrs fluc_table ''Wind_mean'' \<noteq> None"
  by (simp_all add: fluc_table_def getattr_def)

text \<open>
  Claim C6. The source does not trim: on a table whose channel \<open>Wind\<close> has six samples and
  whose \<open>Wind_mean\<close> has three, as a running mean leaves it, \<open>fluctuations\<close> raises
  \<open>TypeError\<close> at the slice of line 209 and adds nothing, with the mean named or found
  by default; it does so whenever the data is longer than the mean.
\<close>

theorem fluctuations_does_not_trim:
  "getattr fluc_table ''Wind'' = Inr [3, 1, 4, 1, 5, 9] \<and>
   getattr fluc_table ''Wind_mean'' = Inr [2, 2, 3] \<and>
   fluctuations no_filter fluc_table ''Wind'' (Some ''Wind_mean'') = (Inl TypeError, fluc_table) \<and>
   fluctuations no_filter fluc_table ''Wind'' None = (Inl TypeError, fluc_table)"
  using fluctuations_from_longer_data [OF fluc_facts(1,2)] fluc_facts(5)
  by (simp add: fluc_facts(1,2) fluctuations_def)

text \<open>
  Nor is a mean longer than the data refused as such: the subtraction raises numpy's
  \<open>ValueError\<close> unless one of the two arrays has a single sample, which numpy broadcasts
  against the other.
\<close>

lemma fluctuations_from_longer_mean:
  assumes "getattr s outputName = Inr data" and "getattr s meanName = Inr mean"
    and "length data < length mean" and "length data \<noteq> 1" and "length mean \<noteq> 1"
  shows "fluctuations_from s outputName meanName = (Inl ValueError, s)"
  using assms(3,4,5) unfolding fluctuations_from_def
  by (simp add: assms(1,2) np_sub_def)

lemma fluctuations_broadcasts_single_sample:
  "fluctuations no_filter fluc_table ''peak'' (Some ''Wind_mean'') =
     (Inr [3, 3, 2], addOutput fluc_table ''peak_fluc'' [3, 3, 2] None)"
  by (simp add: fluc_facts fluctuations_def fluctuations_from_def np_sub_def)

section \<open>Vector magnitude\<close>

lemma mag_sq_loop_Array:
  assumes "list_all2 (\<lambda>c col. getitem s c = Inr col \<and> length col = n) cs cols"
    and "length a = n"
  shows "mag_sq_loop s (Array a) cs =
     Inr (Array (map (\<lambda>k. a ! k + (\<Sum>col\<leftarrow>cols. (col ! k)\<^sup>2)) [0..<n]))"
  using assms
proof (induction cs arbitrary: cols a)
  case Nil
  then show ?case using map_nth [of a] by auto
next
  case (Cons c cs)
  from Cons.prems(1) obtain col cols' where cols: "cols = col # cols'"
    and c: "getitem s c = Inr col" "length col = n"
    and rest: "list_all2 (\<lambda>c col. getitem s c = Inr col \<and> length col = n) cs cols'"
    by (auto simp: list_all2_Cons1)
  let ?a = "map2 (+) a (map (\<lambda>x. x\<^sup>2) col)"
  have len: "length ?a = n" using c(2) Cons.prems(2) by simp
  have nth: "\<And>k. k < n \<Longrightarrow> ?a ! k = a ! k + (col ! k)\<^sup>2"
    using c(2) Cons.prems(2) by simp
  have "mag_sq_loop s (Array a) (c # cs) = mag_sq_loop s (Array ?a) cs"
    using c Cons.prems(2) by (simp add: np_iadd_def)
  also have "\<dots> = Inr (Array (map (\<lambda>k. ?a ! k + (\<Sum>col\<leftarrow>cols'. (col ! k)\<^sup>2)) [0..<n]))"
    by (rule Cons.IH [OF rest len])
  also have "map (\<lambda>k. ?a ! k + (\<Sum>col\<leftarrow>cols'. (col ! k)\<^sup>2)) [0..<n] =
      map (\<lambda>k. a ! k + (\<Sum>col\<leftarrow>cols. (col ! k)\<^sup>2)) [0..<n]"
    using nth by (simp add: cols add.assoc)
  finally show ?case .
qed

lemma mag_sq_loop_Scalar:
  assumes "list_all2 (\<lambda>c col. getitem s c = Inr col \<and> length col = n) cs cols"
    and "cs \<noteq> []"
  shows "mag_sq_loop s (Scalar 0) cs =
     Inr (Array (map (\<lambda>k. \<Sum>col\<leftarrow>cols. (col ! k)\<^sup>2) [0..<n]))"
proof -
  from assms obtain c cs' col cols' where cs: "cs = c # cs'" and cols: "cols = col # cols'"
    and c: "getitem s c = Inr col" "length col = n"
    and rest: "list_all2 (\<lambda>c col. getitem s c = Inr col \<and> length col = n) cs' cols'"
    by (cases cs) (auto simp: list_all2_Cons1)
  let ?a = "map (\<lambda>x. 0 + x) (map (\<lambda>x. x\<^sup>2) col)"
  have len: "length ?a = n" using c(2) by simp
  have "mag_sq_loop s (Scalar 0) cs = mag_sq_loop s (Array ?a) cs'"
    using c by (simp add: cs np_iadd_def)
  also have "\<dots> = Inr (Array (map (\<lambda>k. ?a ! k + (\<Sum>col\<leftarrow>cols'. (col ! k)\<^sup>2)) [0..<n]))"
    by (rule mag_sq_loop_Array [OF rest len])
  also have "map (\<lambda>k. ?a ! k + (\<Sum>col\<leftarrow>cols'. (col ! k)\<^sup>2)) [0..<n] =
      map (\<lambda>k. \<Sum>col\<leftarrow>cols. (col ! k)\<^sup>2) [0..<n]"
    using c(2) by (simp add: cols)
  finally show ?thesis .
qed

lemma pow_half_sum_squares:
  "(\<Sum>col\<leftarrow>cols. ((col ! k)::real)\<^sup>2) powr (1 / 2) = sqrt (\<Sum>col\<leftarrow>cols. (col ! k)\<^sup>2)"
proof -
  have "0 \<le> (\<Sum>col\<leftarrow>cols. ((col ! k)::real)\<^sup>2)"
    by (rule sum_list_nonneg) auto
  then show ?thesis by (simp add: powr_half_sqrt)
qed

lemma vector_magnitude_norm:
  assumes "list_all2 (\<lambda>c col. getitem s c = Inr col \<and> length col = n) (c0 # cs) cols"
    and "output_units s c0 = Some u"
  shows "vector_magnitude s outputname (c0 # cs) =
     Inr (addOutput s outputname (vector_norm cols n) (Some u))"
  unfolding vector_magnitude_def
  by (simp add: mag_sq_loop_Scalar [OF assms(1)] assms(2) np_pow_half_def vector_norm_def
      pow_half_sum_squares comp_def del: mag_sq_loop.simps)

lemma vector_magnitude_no_unit:
  assumes "list_all2 (\<lambda>c col. getitem s c = Inr col \<and> length col = n) (c0 # cs) cols"
    and "output_units s c0 = None"
  shows "vector_magnitude s outputname (c0 # cs) = Inl KeyError"
  unfolding vector_magnitude_def
  by (simp add: mag_sq_loop_Scalar [OF assms(1)] assms(2) del: mag_sq_loop.simps)

text \<open>
  Claim C7, as amended. Take a list of components that is not empty, all of them channels
  of the table with data of one length. Where the first of them has a unit in
  \<open>output_units\<close>, \<open>vector_magnitude\<close> computes the square root of the sum of the squared
  components element by element and hands it to \<open>addOutput\<close> under the given name with the
  unit of the first component; where the name is new, the table then answers for it with
  the magnitude and that unit. Where the first component has no unit in \<open>output_units\<close>,
  the call raises \<open>KeyError\<close> and nothing is added.
\<close>

theorem vector_magnitude_first_unit:
  assumes "list_all2 (\<lambda>c col. getitem s c = Inr col \<and> length col = n) (c0 # cs) cols"
  shows "(case output_units s c0 of
            None \<Rightarrow> vector_magnitude s outputname (c0 # cs) = Inl KeyError
          | Some u \<Rightarrow>
              vector_magnitude s outputname (c0 # cs) =
                Inr (addOutput s outputname (vector_norm cols n) (Some u)) \<and>
              (outputname \<notin> set (outputs s) \<longrightarrow>
                 getitem (addOutput s outputname (vector_norm cols n) (Some u)) outputname =
                   Inr (vector_norm cols n) \<and>
                 output_units (addOutput s outputname (vector_norm cols n) (Some u)) outputname =
                   Some u))"
proof (cases "output_units s c0")
  case None
  then show ?thesis using vector_magnitude_no_unit [OF assms None] by simp
next
  case (Some u)
  then show ?thesis
    using vector_magnitude_norm [OF assms Some]
    by (simp add: getitem_def getattr_def addOutput_outputs addOutput_attrs
        addOutput_output_units)
qed

lemma sqrt_25: "sqrt 25 = 5"
  by (rule real_sqrt_unique) simp_all

lemma force_norm: "vector_norm [[3, 3, 3], [4, 4, 4]] 3 = [5, 5, 5]"
  by (simp add: vector_norm_def sqrt_25 upt_rec)

lemma force_alias_facts:
  "getitem force_alias_table ''T'' = Inr [3, 3, 3]"
  "getitem force_alias_table ''Fy'' = Inr [4, 4, 4]"
  "output_units force_alias_table ''T'' = None"
  by (simp_all add: force_alias_table_def force_table_def getitem_def getattr_def
      addOutput_def)

theorem vector_magnitude_first_unit_witness:
  "vector_magnitude force_table ''Fmag'' [''Fx'', ''Fy''] =
     Inr (addOutput force_table ''Fmag'' [5, 5, 5] (Some ''kN'')) \<and>
   getitem (addOutput force_table ''Fmag'' [5, 5, 5] (Some ''kN'')) ''Fmag'' = Inr [5, 5, 5] \<and>
   output_units (addOutput force_table ''Fmag'' [5, 5, 5] (Some ''kN'')) ''Fmag'' =
     output_units force_table ''Fx'' \<and>
   vector_magnitude force_alias_table ''Fmag'' [''T'', ''Fy''] = Inl KeyError"
proof -
  have a: "list_all2 (\<lambda>c col. getitem force_table c = Inr col \<and> length col = 3)
      [''Fx'', ''Fy''] [[3, 3, 3], [4, 4, 4]]"
    and b: "output_units force_table ''Fx'' = Some ''kN''"
    and c: "''Fmag'' \<notin> set (outputs force_table)"
    by (simp_all add: force_table_def getitem_def getattr_def)
  have d: "list_all2 (\<lambda>c col. getitem force_alias_table c = Inr col \<and> length col = 3)
      [''T'', ''Fy''] [[3, 3, 3], [4, 4, 4]]"
    by (simp add: force_alias_facts)
  show ?thesis
    using vector_magnitude_first_unit [OF a, of "''Fmag''", unfolded b option.case force_norm]
      vector_magnitude_first_unit [OF d, of "''Fmag''", unfolded force_alias_facts(3) option.case]
      b c
    by simp
qed

text \<open>
  The claim as written fails when the first component has no unit: an alias is added
  without one, so with the alias \<open>T\<close> of \<open>Fx\<close> as first component line 220 raises
  \<open>KeyError\<close> and nothing is added.
\<close>

theorem vector_magnitude_alias_has_no_unit:
  "getitem force_alias_table ''T'' = Inr [3, 3, 3] \<and>
   getitem force_alias_table ''Fy'' = Inr [4, 4, 4] \<and>
   vector_magnitude force_alias_table ''Fmag'' [''T'', ''Fy''] = Inl KeyError"
  by (simp add: force_alias_table_def force_table_def getitem_def getattr_def addOutput_def
      vector_magnitude_def np_iadd_def)

section \<open>Statistics\<close>

lemma foldl_min_Min: "foldl min (x::real) xs = Min (set (x # xs))"
proof -
  have "(\<lambda>a b. min b a) = (min :: real \<Rightarrow> real \<Rightarrow> real)"
    by (intro ext) (rule min.commute)
  then have "foldl min x xs = fold min xs x"
    by (simp add: foldl_conv_fold)
  also have "\<dots> = Min (set (x # xs))"
    by (rule Min.set_eq_fold [symmetric])
  finally show ?thesis .
qed

lemma foldl_max_Max: "foldl max (x::real) xs = Max (set (x # xs))"
proof -
  have "(\<lambda>a b. max b a) = (max :: real \<Rightarrow> real \<Rightarrow> real)"
    by (intro ext) (rule max.commute)
  then have "foldl max x xs = fold max xs x"
    by (simp add: foldl_conv_fold)
  also have "\<dots> = Max (set (x # xs))"
    by (rule Max.set_eq_fold [symmetric])
  finally show ?thesis .
qed

lemma np_min_Min: "xs \<noteq> [] \<Longrightarrow> np_min xs = Min (set xs)"
  unfolding np_min_def using foldl_min_Min [of "hd xs" "tl xs"] by simp

lemma np_max_Max: "xs \<noteq> [] \<Longrightarrow> np_max xs = Max (set xs)"
  unfolding np_max_def using foldl_max_Max [of "hd xs" "tl xs"] by simp

lemma np_std_population:
  "np_std xs = sqrt ((\<Sum>x\<leftarrow>xs. (x - sum_list xs / real (length xs))\<^sup>2) / real (length xs))"
  by (simp add: np_std_def np_mean_def comp_def)

lemma printStats_rows_ok:
  assumes "\<forall>(output, u) \<in> set ps. \<exists>d. attrs s output = Some d \<and> d \<noteq> []"
  shows "printStats_rows s ps =
     Inr (map (\<lambda>(output, u). stats_of output u (the (attrs s output))) ps)"
  using assms by (induction ps) (auto simp: getattr_def)

lemma set_zip_take: "(a, b) \<in> set (zip xs ys) \<Longrightarrow> a \<in> set (take (length ys) xs)"
  by (auto simp: in_set_zip in_set_conv_nth)

lemma printStats_ok:
  assumes "\<forall>output \<in> set (take (length (units s)) (outputs s)).
             \<exists>d. attrs s output = Some d \<and> d \<noteq> []"
  shows "printStats s =
     Inr (map (\<lambda>(output, u). stats_of output u (the (attrs s output)))
            (zip (outputs s) (units s)))"
  unfolding printStats_def
  by (rule printStats_rows_ok) (use assms set_zip_take in fastforce)

text \<open>
  Claim C9, as amended. \<open>printStats\<close> produces one row for every pair of
  \<open>zip(outputs, units)\<close>, that is for the first \<open>len(units)\<close> channels in the order of
  insertion: the channels read from the file. A channel added later by an alias or a
  derivation has no entry in \<open>units\<close> and gets no row. Each row holds the channel's name
  and unit and the minimum, maximum, mean and population standard deviation of the whole
  stored series.
\<close>

theorem printStats_rows_of_file_channels:
  assumes "\<forall>output \<in> set (take (length (units s)) (outputs s)).
             \<exists>d. attrs s output = Some d \<and> d \<noteq> []"
  shows "printStats s =
           Inr (map (\<lambda>(output, u). stats_of output u (the (attrs s output)))
                  (zip (outputs s) (units s))) \<and>
         map row_name (map (\<lambda>(output, u). stats_of output u (the (attrs s output)))
                         (zip (outputs s) (units s))) =
           take (length (units s)) (outputs s) \<and>
         (d \<noteq> [] \<longrightarrow>
            stats_of output u d =
              \<lparr>row_name = output, row_units = u, row_min = Min (set d), row_max = Max (set d),
               row_mean = sum_list d / real (length d),
               row_std = sqrt ((\<Sum>x\<leftarrow>d. (x - sum_list d / real (length d))\<^sup>2) / real (length d))\<rparr>)"
proof (intro conjI impI)
  show "printStats s =
      Inr (map (\<lambda>(output, u). stats_of output u (the (attrs s output)))
             (zip (outputs s) (units s)))"
    by (rule printStats_ok [OF assms])
  have "map row_name (map (\<lambda>(output, u). stats_of output u (the (attrs s output)))
        (zip (outputs s) (units s))) = map fst (zip (outputs s) (units s))"
    by (auto simp: stats_of_def)
  also have "\<dots> = take (length (units s)) (outputs s)"
    by (simp add: map_fst_zip_take min_def)
  finally show "map row_name (map (\<lambda>(output, u). stats_of output u (the (attrs s output)))
        (zip (outputs s) (units s))) = take (length (units s)) (outputs s)" .
  show "stats_of output u d =
      \<lparr>row_name = output, row_units = u, row_min = Min (set d), row_max = Max (set d),
       row_mean = sum_list d / real (length d),
       row_std = sqrt ((\<Sum>x\<leftarrow>d. (x - sum_list d / real (length d))\<^sup>2) / real (length d))\<rparr>"
    if "d \<noteq> []"
    using that by (simp add: stats_of_def np_min_Min np_max_Max np_mean_def np_std_population)
qed

theorem printStats_rows_of_file_channels_witness:
  "printStats scenario_table =
     Inr [stats_of ''Time'' ''s'' [0, 1, 2], stats_of ''Power'' ''kW'' [10, 20, 15]] \<and>
   stats_of ''Power'' ''kW'' [10, 20, 15] =
     \<lparr>row_name = ''Power'', row_units = ''kW'', row_min = 10, row_max = 20, row_mean = 15,
      row_std = sqrt (50 / 3)\<rparr>"
proof -
  have a: "\<forall>output \<in> set (take (length (units scenario_table)) (outputs scenario_table)).
      \<exists>d. attrs scenario_table output = Some d \<and> d \<noteq> []"
    by (simp add: scenario_table_def)
  have b: "map (\<lambda>(output, u). stats_of output u (the (attrs scenario_table output)))
      (zip (outputs scenario_table) (units scenario_table)) =
      [stats_of ''Time'' ''s'' [0, 1, 2], stats_of ''Power'' ''kW'' [10, 20, 15]]"
    by (simp add: scenario_table_def)
  have c: "[10, 20, 15::real] \<noteq> []" "Min (set [10, 20, 15::real]) = 10"
    "Max (set [10, 20, 15::real]) = 20" "sum_list [10, 20, 15::real] / real (length [10, 20, 15::real]) = 15"
    "(\<Sum>x\<leftarrow>[10, 20, 15::real]. (x - 15)\<^sup>2) / real (length [10, 20, 15::real]) = 50 / 3"
    by simp_all
  show ?thesis
    using printStats_rows_of_file_channels [OF a, of "[10, 20, 15]" "''Power''" "''kW''", unfolded b c]
    by blast
qed

text \<open>
  The claim as written fails after an alias: the scenario's table with the alias \<open>t\<close> has
  three channels, and \<open>printStats\<close> has rows for two of them.
\<close>

theorem printStats_skips_added_channels:
  "outputs scenario_alias_table = [''Time'', ''Power'', ''t''] \<and>
   getitem scenario_alias_table ''t'' = Inr [0, 1, 2] \<and>
   printStats scenario_alias_table =
     Inr [stats_of ''Time'' ''s'' [0, 1, 2], stats_of ''Power'' ''kW'' [10, 20, 15]]"
  by (simp add: scenario_alias_table_def scenario_table_def getitem_def getattr_def addOutput_def
      printStats_def)

section \<open>Reading\<close>

lemma np_column_length: "np_column data i = Inr col \<Longrightarrow> length col = length data"
  by (auto simp: np_column_def split: if_splits)

lemma set_columns_Inr:
  assumes "set_columns s data ps = Inr s'"
  shows "outputs s' = outputs s \<and> units s' = units s \<and> Nlines s' = Nlines s \<and>
         Noutputs s' = Noutputs s \<and>
         default_aliases s' = default_aliases s \<and> verbose s' = verbose s \<and>
         dom (attrs s') = dom (attrs s) \<union> snd ` set ps \<and>
         (\<forall>n d. attrs s' n = Some d \<longrightarrow> attrs s n = Some d \<or> length d = length data)"
  using assms
proof (induction ps arbitrary: s)
  case Nil
  then show ?case by simp
next
  case (Cons p ps)
  obtain i nm where p: "p = (i, nm)" by (cases p)
  from Cons.prems obtain col u where col: "np_column data i = Inr col"
    and u: "py_index (units s) (int i) = Inr u"
    and rest: "set_columns (s\<lparr>attrs := (attrs s)(nm \<mapsto> col),
        output_units := (output_units s)(nm \<mapsto> u)\<rparr>) data ps = Inr s'"
    by (auto simp: p split: sum.splits)
  from Cons.IH [OF rest] np_column_length [OF col] show ?case
    by (auto simp: p split: if_splits)
qed

lemma snd_set_enumerate: "snd ` set (enumerate n xs) = set xs"
proof -
  have "map snd (enumerate n xs) = xs"
    by (simp add: enumerate_eq_zip)
  then have "set (map snd (enumerate n xs)) = set xs" by simp
  then show ?thesis by (simp only: set_map)
qed

lemma readASCII_Inr:
  assumes "readASCII loadtxt s f k = Inr (data, s1)"
  shows "outputs s1 = split_ws (readline f k) \<and> attrs s1 = attrs s \<and>
         default_aliases s1 = default_aliases s \<and> verbose s1 = verbose s \<and>
         length (units s1) = length (outputs s1) \<and> Nlines s1 = length f - (k + 2) \<and>
         loadtxt f (k + 2) = Inr data"
  using assms by (auto simp: readASCII_def Let_def split: if_splits sum.splits)

lemma setAlias_attrs_other:
  "n \<noteq> name \<Longrightarrow> attrs (snd (setAlias s name aliases)) n = attrs s n"
  by (simp add: setAlias_snd addOutput_attrs split: option.split)

lemma set_default_aliases_attrs_other:
  "n \<notin> fst ` set al \<Longrightarrow> attrs (set_default_aliases s al) n = attrs s n"
  by (induction s al rule: set_default_aliases.induct) (auto simp: setAlias_attrs_other)

lemma readFASToutput_plain:
  assumes "readFASToutput loadtxt s f k = Inr s'" and "\<not> default_aliases s"
  shows "dom (attrs s') = dom (attrs s) \<union> set (split_ws (readline f k))"
proof -
  from assms(1) obtain data s1 s2 where r: "readASCII loadtxt s f k = Inr (data, s1)"
    and c: "set_columns s1 data (enumerate 0 (outputs s1)) = Inr s2"
    and s': "s' = (if default_aliases s2 then set_default_aliases s2 default_alias_list else s2)"
    by (auto simp: readFASToutput_def split: sum.splits if_splits)
  from readASCII_Inr [OF r] set_columns_Inr [OF c] assms(2) s' show ?thesis
    by (simp add: snd_set_enumerate)
qed

lemma readFASToutput_aliases:
  assumes "readFASToutput loadtxt s f k = Inr s'" and "default_aliases s"
    and "''t'' \<notin> set (split_ws (readline f k))"
  shows "\<exists>time. attrs s' ''t'' = Some time \<and> attrs s' ''Time'' = Some time"
proof -
  from assms(1) obtain data s1 s2 time where r: "readASCII loadtxt s f k = Inr (data, s1)"
    and c: "set_columns s1 data (enumerate 0 (outputs s1)) = Inr s2"
    and t: "getattr s2 ''Time'' = Inr time"
    and s': "s' = (if default_aliases s2 then set_default_aliases s2 default_alias_list else s2)"
    by (auto simp: readFASToutput_def split: sum.splits if_splits)
  from readASCII_Inr [OF r] set_columns_Inr [OF c] assms(2,3)
  have d: "default_aliases s2" and o: "''t'' \<notin> set (outputs s2)" by simp_all
  from t have time: "attrs s2 ''Time'' = Some time"
    by (simp add: getattr_def split: option.splits)
  let ?s3 = "snd (setAlias s2 ''t'' [''Time''])"
  have s3: "attrs ?s3 ''t'' = Some time" "attrs ?s3 ''Time'' = Some time"
    using o time by (simp_all add: getattr_def addOutput_attrs)
  have "s' = set_default_aliases ?s3 (tl default_alias_list)"
    using s' d by (simp add: default_alias_list_def)
  moreover have "''t'' \<notin> fst ` set (tl default_alias_list)"
    "''Time'' \<notin> fst ` set (tl default_alias_list)"
    by (simp_all add: default_alias_list_def)
  ultimately show ?thesis
    using s3 by (simp add: set_default_aliases_attrs_other)
qed

lemma init_Inr:
  assumes "FASToutput_init loadtxt f aliases verb = Inr s"
  shows "readFASToutput loadtxt
     \<lparr>verbose = verb, default_aliases = aliases, outputs = [], units = [],
      output_units = Map.empty, Noutputs = 0, Nlines = 0, attrs = Map.empty\<rparr> f 6 = Inr s"
  using assms by (auto simp: FASToutput_init_def Let_def split: sum.splits if_splits)

lemma init_plain_no_t:
  assumes "FASToutput_init loadtxt f False verb = Inr s"
    and "''t'' \<notin> set (split_ws (readline f 6))"
  shows "getattr s ''t'' = Inl AttributeError"
  using readFASToutput_plain [OF init_Inr [OF assms(1)]] assms(2)
  by (auto simp: getattr_def split: option.splits)

lemma low_pass_no_t:
  assumes "getattr s ''t'' = Inl AttributeError"
  shows "low_pass_filtered_mean scipy s outputName fc order = (Inl AttributeError, s)"
proof (cases "attrs s outputName")
  case None
  then show ?thesis by (simp add: low_pass_filtered_mean_def getattr_def)
next
  case (Some d)
  then have "getattr s outputName = Inr d" by (simp add: getattr_def)
  then show ?thesis using assms by (simp add: low_pass_filtered_mean_def)
qed

text \<open>
  Claim C10. On a table read without the default aliases from a file that has no channel
  named \<open>t\<close>, the attribute \<open>t\<close> does not exist: \<open>running_mean\<close> and
  \<open>low_pass_filtered_mean\<close> raise \<open>AttributeError\<close> and leave the table as it was, and so
  does \<open>fluctuations\<close> when it has to compute the mean itself; none of them falls back on
  \<open>Time\<close>. Read with the default aliases, the same file gives a table in which \<open>t\<close> exists
  and holds what \<open>Time\<close> holds.
\<close>

theorem derivations_need_alias_t:
  assumes "FASToutput_init loadtxt f False verb = Inr s"
    and "''t'' \<notin> set (split_ws (readline f 6))"
  shows "running_mean s outputName Tavg = (Inl AttributeError, s) \<and>
         low_pass_filtered_mean scipy s outputName fc order = (Inl AttributeError, s) \<and>
         (attrs s (outputName @ ''_mean'') = None \<longrightarrow>
            fluctuations scipy s outputName None = (Inl AttributeError, s)) \<and>
         (FASToutput_init loadtxt f True verb = Inr s' \<longrightarrow>
            getattr s' ''t'' = getattr s' ''Time'' \<and> attrs s' ''t'' \<noteq> None)"
proof -
  note t = init_plain_no_t [OF assms]
  have "running_mean s outputName Tavg = (Inl AttributeError, s)"
    using t by (simp add: running_mean_def)
  moreover note lp = low_pass_no_t [OF t, of scipy outputName]
  moreover have "fluctuations scipy s outputName None = (Inl AttributeError, s)"
    if "attrs s (outputName @ ''_mean'') = None"
    using that lp [of Inf 2] by (simp add: fluctuations_def)
  moreover have "getattr s' ''t'' = getattr s' ''Time'' \<and> attrs s' ''t'' \<noteq> None"
    if "FASToutput_init loadtxt f True verb = Inr s'"
  proof -
    from readFASToutput_aliases [OF init_Inr [OF that] _ assms(2)]
    obtain time where "attrs s' ''t'' = Some time" "attrs s' ''Time'' = Some time" by auto
    then show ?thesis by (simp add: getattr_def)
  qed
  ultimately show ?thesis by blast
qed

lemma scenario_lines:
  "split_ws (readline scenario_file 6) = [''Time'', ''Power'']"
  "map (strip_chars ''()'') (split_ws (readline scenario_file 7)) = [''s'', ''kW'']"
  "length scenario_file = 11"
  "example_loadtxt scenario_file 8 = Inr [[0, 10], [1, 20], [2, 15]]"
  by (simp_all add: scenario_file_def readline_def split_ws_def is_space_def strip_chars_def
      example_loadtxt_def)

lemma scenario_init:
  "FASToutput_init example_loadtxt scenario_file False False = Inr scenario_table"
  by (simp add: FASToutput_init_def readFASToutput_def readASCII_def scenario_lines Let_def
      enumerate_eq_zip upt_rec np_column_def py_index_def getattr_def scenario_table_def)

lemma scenario_init_aliases:
  "FASToutput_init example_loadtxt scenario_file True False =
     Inr (set_default_aliases (scenario_table\<lparr>default_aliases := True\<rparr>) default_alias_list)"
  by (simp add: FASToutput_init_def readFASToutput_def readASCII_def scenario_lines Let_def
      enumerate_eq_zip upt_rec np_column_def py_index_def getattr_def scenario_table_def
      numeral_2_eq_2 del: set_default_aliases.simps)

theorem derivations_need_alias_t_witness:
  "running_mean scenario_table ''Power'' 1 = (Inl AttributeError, scenario_table) \<and>
   low_pass_filtered_mean no_filter scenario_table ''Power'' (Hz 1) 2 =
     (Inl AttributeError, scenario_table) \<and>
   fluctuations no_filter scenario_table ''Power'' None = (Inl AttributeError, scenario_table) \<and>
   getattr (set_default_aliases (scenario_table\<lparr>default_aliases := True\<rparr>) default_alias_list) ''t'' =
     getattr (set_default_aliases (scenario_table\<lparr>default_aliases := True\<rparr>) default_alias_list)
       ''Time''"
proof -
  have t: "''t'' \<notin> set (split_ws (readline scenario_file 6))"
    by (simp add: scenario_lines)
  have m: "attrs scenario_table (''Power'' @ ''_mean'') = None"
    by (simp add: scenario_table_def)
  show ?thesis
    using derivations_need_alias_t [OF scenario_init t, of "''Power''" 1 no_filter "Hz 1" 2
        "set_default_aliases (scenario_table\<lparr>default_aliases := True\<rparr>) default_alias_list"]
      m scenario_init_aliases
    by blast
qed

text \<open>
  Claim C2. A file with a single row of data is well formed, and the constructor fails on
  it: numpy's \<open>loadtxt\<close> squeezes the one row to an array of one dimension, and
  \<open>data[:,i]\<close> of line 112 raises \<open>IndexError\<close>, so there is no table to export.
\<close>

theorem single_row_file_not_read:
  "FASToutput_init example_loadtxt single_row_file False False = Inl IndexError"
  by (simp add: FASToutput_init_def readFASToutput_def readASCII_def Let_def
      single_row_file_def readline_def split_ws_def is_space_def strip_chars_def
      example_loadtxt_def enumerate_eq_zip upt_rec np_column_def)

end
